theory Spec2Isabelle
  imports
    Complex_Main
    "HOL-Library.Multiset"
    "HOL-Library.Product_Lexorder"
    "HOL-Library.Option_ord"
    "HOL-Library.List_Lexorder"
    "HOL-Library.Char_ord"
begin

section \<open>Record model\<close>

text \<open>
  The metrics of the financial dashboard are computed by SQL queries over the tables
  \<^verbatim>\<open>categories\<close>, \<^verbatim>\<open>transactions\<close>, \<^verbatim>\<open>budgets\<close> and \<^verbatim>\<open>financial_goals\<close>, followed by
  pandas post-processing. A table is a list of rows; a row is a record holding the columns
  the queries read. Column names carry a one-letter table prefix, since several tables
  have a \<^verbatim>\<open>category_id\<close>.

  Amounts are SQL \<^verbatim>\<open>numeric\<close> values, modelled as exact rationals. A date is the number of
  days since 1970-01-01, so that the difference of two dates is a number of days. The
  nullable columns the queries test for \<^verbatim>\<open>NULL\<close> (\<^verbatim>\<open>parent_category_id\<close>, \<^verbatim>\<open>merchant\<close>) are
  options; the other columns are taken as \<^verbatim>\<open>NOT NULL\<close>.
\<close>

type_synonym date = int

record category =
  c_category_id :: int
  c_category_name :: string
  c_parent_category_id :: "int option"
  c_category_type :: string

record transaction =
  t_transaction_id :: int
  t_category_id :: int
  t_transaction_date :: date
  t_amount :: rat
  t_merchant :: "string option"
  t_transaction_type :: string

record budget =
  b_category_id :: int
  b_budget_period :: string
  b_budget_amount :: rat
  b_is_active :: bool

record financial_goal =
  g_goal_name :: string
  g_goal_type :: string
  g_target_amount :: rat
  g_current_amount :: rat
  g_target_date :: date
  g_priority :: int
  g_is_active :: bool

record db =
  categories :: "category list"
  transactions :: "transaction list"
  budgets :: "budget list"
  financial_goals :: "financial_goal list"

section \<open>SQL and pandas primitives\<close>

text \<open>
  \<^verbatim>\<open>DATE_TRUNC('month', d)\<close> keeps the year and the month of a date. The civil date of a day
  number follows the proleptic Gregorian calendar, computed era by era (an era is 400
  years, 146097 days, starting on a 1st of March).
\<close>

definition civil_from_days :: "date \<Rightarrow> int \<times> int \<times> int" where
  "civil_from_days z0 =
    (let z = z0 + 719468;
         era = z div 146097;
         doe = z - era * 146097;
         yoe = (doe - doe div 1460 + doe div 36524 - doe div 146096) div 365;
         doy = doe - (365 * yoe + yoe div 4 - yoe div 100);
         mp = (5 * doy + 2) div 153;
         dd = doy - (153 * mp + 2) div 5 + 1;
         mm = (if mp < 10 then mp + 3 else mp - 9);
         yy = yoe + era * 400 + (if mm \<le> 2 then 1 else 0)
     in (yy, mm, dd))"

definition date_trunc_month :: "date \<Rightarrow> int \<times> int" where
  "date_trunc_month d = (case civil_from_days d of (yy, mm, dd) \<Rightarrow> (yy, mm))"

text \<open>
  \<^verbatim>\<open>SUM\<close> skips \<^verbatim>\<open>NULL\<close>s and is \<^verbatim>\<open>NULL\<close> when no value is left; \<^verbatim>\<open>COALESCE(v, d)\<close> replaces
  \<^verbatim>\<open>NULL\<close> by \<open>d\<close>; arithmetic on \<^verbatim>\<open>NULL\<close> is \<^verbatim>\<open>NULL\<close>; \<^verbatim>\<open>NULLIF(x, 0)\<close> is \<^verbatim>\<open>NULL\<close> at 0.
\<close>

definition sql_sum :: "rat option list \<Rightarrow> rat option" where
  "sql_sum vs = (case List.map_filter id vs of [] \<Rightarrow> None | x # xs \<Rightarrow> Some (sum_list (x # xs)))"

definition coalesce :: "'a option \<Rightarrow> 'a \<Rightarrow> 'a" where
  "coalesce v d = (case v of None \<Rightarrow> d | Some x \<Rightarrow> x)"

definition sql_minus :: "rat option \<Rightarrow> rat option \<Rightarrow> rat option" where
  "sql_minus a b = (case (a, b) of (Some x, Some y) \<Rightarrow> Some (x - y) | _ \<Rightarrow> None)"

definition nullif0 :: "rat \<Rightarrow> rat option" where
  "nullif0 x = (if x = 0 then None else Some x)"

text \<open>
  \<^verbatim>\<open>GROUP BY\<close>: one group per distinct key, holding the rows of that key. SQL leaves the
  order of the groups open; every query below that depends on an order sorts explicitly.
\<close>

definition group_by :: "('r \<Rightarrow> 'k) \<Rightarrow> 'r list \<Rightarrow> ('k \<times> 'r list) list" where
  "group_by key rows = map (\<lambda>k. (k, filter (\<lambda>r. key r = k) rows)) (remdups (map key rows))"

text \<open>
  \<^verbatim>\<open>ROUND(x::numeric, n)\<close> of PostgreSQL rounds half away from zero; the \<^verbatim>\<open>round(n)\<close> of
  numpy and pandas rounds half to even.
\<close>

definition pg_round :: "nat \<Rightarrow> rat \<Rightarrow> rat" where
  "pg_round n x = sgn x * of_int \<lfloor>\<bar>x\<bar> * 10 ^ n + 1 / 2\<rfloor> / 10 ^ n"

definition round_half_even :: "rat \<Rightarrow> int" where
  "round_half_even y =
    (let f = \<lfloor>y\<rfloor>; r = y - of_int f
     in if r < 1 / 2 then f else if 1 / 2 < r then f + 1 else if even f then f else f + 1)"

definition np_round :: "nat \<Rightarrow> rat \<Rightarrow> rat" where
  "np_round n x = of_int (round_half_even (x * 10 ^ n)) / 10 ^ n"

text \<open>
  pandas reads numeric columns as 64-bit floats (\<^verbatim>\<open>coerce_float\<close>), and a float division by
  zero does not raise: it gives an infinity or NaN. A finite float is the rational it
  stands for; the three special values are explicit. The operations \<open>float_div\<close>,
  \<open>float_scale\<close> and \<open>float_round\<close>, used by the monthly summary and the merchant profiler,
  compute on these rationals without rounding error.
\<close>

datatype float64 = Finite rat | PosInf | NegInf | NaN

definition float_div :: "rat \<Rightarrow> rat \<Rightarrow> float64" where
  "float_div a b =
    (if b \<noteq> 0 then Finite (a / b)
     else if 0 < a then PosInf else if a < 0 then NegInf else NaN)"

fun float_scale :: "float64 \<Rightarrow> rat \<Rightarrow> float64" where
  "float_scale (Finite x) k = Finite (x * k)"
| "float_scale PosInf k = (if 0 < k then PosInf else if k < 0 then NegInf else NaN)"
| "float_scale NegInf k = (if 0 < k then NegInf else if k < 0 then PosInf else NaN)"
| "float_scale NaN k = NaN"

fun float_round :: "nat \<Rightarrow> float64 \<Rightarrow> float64" where
  "float_round n (Finite x) = Finite (np_round n x)"
| "float_round n v = v"

text \<open>
  The goal tracker rounds a float quotient to cents, and there the rounding error of the
  floats decides the cent. Its arithmetic is binary64 as the machine does it: \<open>b64 x\<close> is
  the double nearest to \<open>x\<close> (53 significant bits, ties to even, gradual underflow below
  \<open>2 powi (- 1022)\<close>, infinity from \<open>2 powi 1024\<close> on), and every operation rounds its exact
  result so. \<open>float_exponent x\<close> is the integer part of the binary logarithm of \<open>\<bar>x\<bar>\<close>. The
  sign of a zero is not modelled. \<^verbatim>\<open>round(n)\<close> of numpy multiplies by \<open>10 ^ n\<close>, rounds to
  the nearest integer (ties to even) and divides again.
\<close>

function bit_length :: "int \<Rightarrow> int" where
  "bit_length n = (if n \<le> 0 then 0 else 1 + bit_length (n div 2))"
  by pat_completeness auto
termination
  by (relation "measure nat") auto

declare bit_length.simps [simp del]

definition float_exponent :: "rat \<Rightarrow> int" where
  "float_exponent x =
    (case quotient_of \<bar>x\<bar> of (p, q) \<Rightarrow>
       let a = bit_length p - bit_length q
       in if 2 powi a \<le> \<bar>x\<bar> then a else a - 1)"

definition b64 :: "rat \<Rightarrow> float64" where
  "b64 x =
    (if x = 0 then Finite 0
     else let e = max (float_exponent x) (- 1022);
              q = 2 powi (e - 52);
              y = of_int (round_half_even (x / q)) * q
          in if 1024 \<le> float_exponent y then (if 0 < x then PosInf else NegInf)
             else Finite y)"

fun b64_div :: "float64 \<Rightarrow> float64 \<Rightarrow> float64" where
  "b64_div (Finite a) (Finite b) =
     (if b \<noteq> 0 then b64 (a / b)
      else if 0 < a then PosInf else if a < 0 then NegInf else NaN)"
| "b64_div (Finite a) PosInf = Finite 0"
| "b64_div (Finite a) NegInf = Finite 0"
| "b64_div PosInf (Finite b) = (if 0 \<le> b then PosInf else NegInf)"
| "b64_div NegInf (Finite b) = (if 0 \<le> b then NegInf else PosInf)"
| "b64_div u v = NaN"

fun b64_times :: "float64 \<Rightarrow> float64 \<Rightarrow> float64" where
  "b64_times (Finite a) (Finite b) = b64 (a * b)"
| "b64_times (Finite a) PosInf = (if 0 < a then PosInf else if a < 0 then NegInf else NaN)"
| "b64_times (Finite a) NegInf = (if 0 < a then NegInf else if a < 0 then PosInf else NaN)"
| "b64_times PosInf (Finite b) = (if 0 < b then PosInf else if b < 0 then NegInf else NaN)"
| "b64_times NegInf (Finite b) = (if 0 < b then NegInf else if b < 0 then PosInf else NaN)"
| "b64_times PosInf PosInf = PosInf"
| "b64_times NegInf NegInf = PosInf"
| "b64_times PosInf NegInf = NegInf"
| "b64_times NegInf PosInf = NegInf"
| "b64_times u v = NaN"

fun b64_rint :: "float64 \<Rightarrow> float64" where
  "b64_rint (Finite x) = Finite (of_int (round_half_even x))"
| "b64_rint v = v"

definition b64_round :: "nat \<Rightarrow> float64 \<Rightarrow> float64" where
  "b64_round n v = b64_div (b64_rint (b64_times v (Finite (10 ^ n)))) (Finite (10 ^ n))"

section \<open>Monthly summary\<close>

subsection \<open>The report's summary: \<^verbatim>\<open>FinancialReportGenerator.get_monthly_summary\<close>\<close>

record summary =
  income :: "rat option"
  expenses :: "rat option"
  savings :: "rat option"
  savings_rate :: rat

text \<open>
  The rows of \<^verbatim>\<open>transactions t JOIN categories c ON t.category_id = c.category_id\<close>, the
  \<^verbatim>\<open>FROM\<close> clause of four of the queries, and those of them whose date falls in the month
  of \<^verbatim>\<open>CURRENT_DATE\<close> (the parameter \<open>today\<close>).
\<close>

definition transactions_join_categories :: "db \<Rightarrow> (transaction \<times> category) list" where
  "transactions_join_categories d =
    [(t, c). t \<leftarrow> transactions d, c \<leftarrow> categories d, t_category_id t = c_category_id c]"

definition current_month_rows :: "db \<Rightarrow> date \<Rightarrow> (transaction \<times> category) list" where
  "current_month_rows d today =
    filter (\<lambda>(t, c). date_trunc_month (t_transaction_date t) = date_trunc_month today)
      (transactions_join_categories d)"

definition get_monthly_summary :: "db \<Rightarrow> date \<Rightarrow> summary" where
  "get_monthly_summary d today =
    (let rows = current_month_rows d today;
         inc = sql_sum (map (\<lambda>(t, c).
                 Some (if c_category_type c = ''income'' then t_amount t else 0)) rows);
         expn = sql_sum (map (\<lambda>(t, c).
                 Some (if c_category_type c = ''expense'' \<and> t_transaction_type t = ''debit''
                       then t_amount t else 0)) rows);
         df = [\<lparr>income = inc, expenses = expn, savings = sql_minus inc expn,
                savings_rate =
                  (case (inc, expn) of
                     (Some i, Some e) \<Rightarrow>
                       if 0 < i then pg_round 2 ((i - e) / i * 100) else 0
                   | _ \<Rightarrow> 0)\<rparr>]
     in case df of
          r # rest \<Rightarrow> r
        | [] \<Rightarrow> \<lparr>income = Some 0, expenses = Some 0, savings = Some 0, savings_rate = 0\<rparr>)"

subsection \<open>The ETL summary: \<^verbatim>\<open>FinancialDataETL.extract_monthly_summary\<close>\<close>

text \<open>
  The query groups all joined rows by month and category type, with no filter on the
  transaction type. \<^verbatim>\<open>pivot_table\<close> then makes one row per month (ascending) and one
  column per category type (ascending), \<^verbatim>\<open>fill_value=0\<close> where a month has no row of a
  type. The savings columns exist only when both an \<^verbatim>\<open>income\<close> and an \<^verbatim>\<open>expense\<close> column do.
  The \<^verbatim>\<open>ORDER BY\<close> of the query is not modelled: the pivot does not depend on it.
\<close>

record monthly_type_row =
  mt_month :: "int \<times> int"
  mt_category_type :: string
  mt_total_amount :: rat
  mt_transaction_count :: nat
  mt_avg_amount :: rat

record monthly_pivot_row =
  mp_month :: "int \<times> int"
  mp_columns :: "(string \<times> rat) list"
  mp_savings :: "rat option"
  mp_savings_rate :: "float64 option"

definition monthly_type_query :: "db \<Rightarrow> monthly_type_row list" where
  "monthly_type_query d =
    map (\<lambda>((m, ty), g).
          \<lparr>mt_month = m, mt_category_type = ty,
           mt_total_amount = sum_list (map (\<lambda>(t, c). t_amount t) g),
           mt_transaction_count = length g,
           mt_avg_amount = sum_list (map (\<lambda>(t, c). t_amount t) g) / of_nat (length g)\<rparr>)
      (group_by (\<lambda>(t, c). (date_trunc_month (t_transaction_date t), c_category_type c))
         (transactions_join_categories d))"

definition pivot_cell :: "monthly_type_row list \<Rightarrow> int \<times> int \<Rightarrow> string \<Rightarrow> rat" where
  "pivot_cell df m ty =
    (case filter (\<lambda>r. mt_month r = m \<and> mt_category_type r = ty) df of
       [] \<Rightarrow> 0
     | r # rs \<Rightarrow> sum_list (map mt_total_amount (r # rs)))"

definition extract_monthly_summary :: "db \<Rightarrow> monthly_pivot_row list" where
  "extract_monthly_summary d =
    (let df = monthly_type_query d;
         months = sort (remdups (map mt_month df));
         types = sort (remdups (map mt_category_type df))
     in map (\<lambda>m.
          let cols = map (\<lambda>ty. (ty, pivot_cell df m ty)) types
          in if ''income'' \<in> set types \<and> ''expense'' \<in> set types
             then
               (let inc = pivot_cell df m ''income'';
                    sav = inc - pivot_cell df m ''expense''
                in \<lparr>mp_month = m, mp_columns = cols, mp_savings = Some sav,
                    mp_savings_rate =
                      Some (float_round 2 (float_scale (float_div sav inc) 100))\<rparr>)
             else \<lparr>mp_month = m, mp_columns = cols, mp_savings = None,
                   mp_savings_rate = None\<rparr>)
        months)"

section \<open>Budget evaluator\<close>

text \<open>
  \<^verbatim>\<open>a LEFT JOIN b ON p\<close>: every row of \<open>a\<close> with each matching row of \<open>b\<close>, or once with
  \<^verbatim>\<open>NULL\<close>s when none matches.
\<close>

definition left_join :: "('a \<Rightarrow> 'b \<Rightarrow> bool) \<Rightarrow> 'a list \<Rightarrow> 'b list \<Rightarrow> ('a \<times> 'b option) list" where
  "left_join on xs ys =
    concat (map (\<lambda>x. case filter (on x) ys of
                         [] \<Rightarrow> [(x, None)]
                       | y # rest \<Rightarrow> map (\<lambda>y'. (x, Some y')) (y # rest)) xs)"

text \<open>
  The common table expression \<^verbatim>\<open>current_month_spending\<close> of both budget queries: one row
  per category that has a parent, with the sum of its debit transactions of the current
  month (0 when it has none). The ETL query also counts the transactions; the report's
  query does not select that column.
\<close>

record spending_row =
  cms_category_id :: int
  cms_category_name :: string
  cms_actual_spend :: rat
  cms_num_transactions :: nat

definition current_month_spending :: "db \<Rightarrow> date \<Rightarrow> spending_row list" where
  "current_month_spending d today =
    map (\<lambda>((cid, cname), g).
          \<lparr>cms_category_id = cid, cms_category_name = cname,
           cms_actual_spend = coalesce (sql_sum (map (\<lambda>(c, t). map_option t_amount t) g)) 0,
           cms_num_transactions =
             length (List.map_filter (\<lambda>(c, t). map_option t_transaction_id t) g)\<rparr>)
      (group_by (\<lambda>(c, t). (c_category_id c, c_category_name c))
        (left_join
          (\<lambda>c t. c_category_id c = t_category_id t
                 \<and> date_trunc_month (t_transaction_date t) = date_trunc_month today
                 \<and> t_transaction_type t = ''debit'')
          (filter (\<lambda>c. c_parent_category_id c \<noteq> None) (categories d))
          (transactions d)))"

subsection \<open>The report's evaluator: \<^verbatim>\<open>FinancialReportGenerator.get_budget_performance\<close>\<close>

record budget_row =
  bp_category_name :: string
  bp_budget :: rat
  bp_actual_spend :: rat
  bp_variance :: rat
  bp_pct_used :: rat

text \<open>
  \<^verbatim>\<open>ORDER BY pct_used DESC\<close> is a stable sort of the joined rows on the negated key; SQL
  leaves the order of rows with equal keys open.
\<close>

definition get_budget_performance :: "db \<Rightarrow> date \<Rightarrow> budget_row list" where
  "get_budget_performance d today =
    sort_key (\<lambda>r. - bp_pct_used r)
      (map (\<lambda>(s, b).
             \<lparr>bp_category_name = cms_category_name s,
              bp_budget = coalesce (map_option b_budget_amount b) 0,
              bp_actual_spend = cms_actual_spend s,
              bp_variance = coalesce (map_option b_budget_amount b) 0 - cms_actual_spend s,
              bp_pct_used =
                (case map_option b_budget_amount b of
                   Some a \<Rightarrow> if 0 < a then pg_round 1 (cms_actual_spend s / a * 100) else 0
                 | None \<Rightarrow> 0)\<rparr>)
        (filter (\<lambda>(s, b). map_option b_budget_amount b \<noteq> None)
          (left_join (\<lambda>s b. cms_category_id s = b_category_id b \<and> b_is_active b)
            (current_month_spending d today) (budgets d))))"

subsection \<open>The ETL evaluator: \<^verbatim>\<open>FinancialDataETL.extract_budget_performance\<close>\<close>

record etl_budget_row =
  eb_category_name :: string
  eb_budget_amount :: rat
  eb_actual_spend :: rat
  eb_variance :: rat
  eb_pct_used :: "rat option"
  eb_num_transactions :: nat

definition extract_budget_performance :: "db \<Rightarrow> date \<Rightarrow> etl_budget_row list" where
  "extract_budget_performance d today =
    sort_key (\<lambda>r. - eb_actual_spend r)
      [\<lparr>eb_category_name = cms_category_name s,
        eb_budget_amount = b_budget_amount b,
        eb_actual_spend = cms_actual_spend s,
        eb_variance = b_budget_amount b - cms_actual_spend s,
        eb_pct_used =
          map_option (\<lambda>a. pg_round 1 (cms_actual_spend s / a * 100))
            (nullif0 (b_budget_amount b)),
        eb_num_transactions = cms_num_transactions s\<rparr>.
       b \<leftarrow> budgets d, s \<leftarrow> current_month_spending d today,
       b_category_id b = cms_category_id s,
       b_is_active b \<and> b_budget_period b = ''monthly'']"

section \<open>Alert classifier: \<^verbatim>\<open>FinancialReportGenerator.get_alerts\<close>\<close>

text \<open>
  Python's \<^verbatim>\<open>f"{x:.2f}"\<close>: a sign, the integer digits, a point and \<open>p\<close> fraction digits,
  rounded half to even. A string is a list of bytes, so the two circle emoji of the
  messages are their four UTF-8 bytes each.
\<close>

definition digit_char :: "nat \<Rightarrow> char" where
  "digit_char k = ''0123456789'' ! k"

fun digits_of :: "nat \<Rightarrow> string" where
  "digits_of n =
    (if n < 10 then [digit_char n]
     else digits_of (n div 10) @ [digit_char (n mod 10)])"

declare digits_of.simps [simp del]

definition format_f :: "nat \<Rightarrow> rat \<Rightarrow> string" where
  "format_f p x =
    (let s = nat (round_half_even (\<bar>x\<bar> * 10 ^ p));
         fd = digits_of (s mod 10 ^ p)
     in (if x < 0 then ''-'' else [])
        @ digits_of (s div 10 ^ p)
        @ (if p = 0 then [] else ''.'' @ replicate (p - length fd) (CHR ''0'') @ fd))"

definition red_circle :: string where
  "red_circle = [CHR 0xF0, CHR 0x9F, CHR 0x94, CHR 0xB4]"

definition yellow_circle :: string where
  "yellow_circle = [CHR 0xF0, CHR 0x9F, CHR 0x9F, CHR 0xA1]"

record alert =
  alert_type :: string
  severity :: string
  message :: string

definition exceeded_alert :: "budget_row \<Rightarrow> alert" where
  "exceeded_alert row =
    \<lparr>alert_type = ''budget_exceeded'', severity = ''high'',
     message = red_circle @ '' '' @ bp_category_name row @ '': $''
       @ format_f 2 (bp_actual_spend row) @ '' spent ($''
       @ format_f 2 \<bar>bp_variance row\<bar> @ '' over budget)''\<rparr>"

definition warning_alert :: "budget_row \<Rightarrow> alert" where
  "warning_alert row =
    \<lparr>alert_type = ''budget_warning'', severity = ''medium'',
     message = yellow_circle @ '' '' @ bp_category_name row @ '': ''
       @ format_f 1 (bp_pct_used row) @ ''% of budget used''\<rparr>"

text \<open>The body of \<^verbatim>\<open>get_alerts\<close> after the budget table is fetched.\<close>

definition budget_alerts :: "budget_row list \<Rightarrow> alert list" where
  "budget_alerts budget_df =
    (let over_budget = filter (\<lambda>r. 100 < bp_pct_used r) budget_df;
         alerts1 = (if over_budget \<noteq> [] then map exceeded_alert over_budget else []);
         near_budget = filter (\<lambda>r. 90 \<le> bp_pct_used r \<and> bp_pct_used r \<le> 100) budget_df;
         alerts2 = (if near_budget \<noteq> [] then alerts1 @ map warning_alert near_budget
                    else alerts1)
     in alerts2)"

definition get_alerts :: "db \<Rightarrow> date \<Rightarrow> alert list" where
  "get_alerts d today = budget_alerts (get_budget_performance d today)"

section \<open>Summary composer: the recommendations of \<^verbatim>\<open>generate_monthly_report\<close>\<close>

definition bullet :: string where
  "bullet = [CHR 0xE2, CHR 0x80, CHR 0xA2]"

definition rec_savings_rate :: string where
  "rec_savings_rate = bullet @ '' Consider increasing your savings rate to at least 20%''"

definition rec_review_budget :: string where
  "rec_review_budget = bullet @ '' Review budget categories that exceeded limits''"

definition rec_focus :: "string \<Rightarrow> string" where
  "rec_focus cname = bullet @ '' Focus on reducing '' @ cname @ '' spending''"

definition rec_great_job :: string where
  "rec_great_job = bullet @ '' Great job! You'' @ [CHR 0x27] @ ''re managing your budget well.''"

definition rec_keep_up :: string where
  "rec_keep_up = bullet @ '' Keep up the consistent saving habits.''"

text \<open>
  The recommendation block of \<^verbatim>\<open>generate_monthly_report\<close>: three rules append in
  source order, and the default pair is emitted when the list is still empty.
\<close>

definition recommendations :: "summary \<Rightarrow> alert list \<Rightarrow> budget_row list \<Rightarrow> string list" where
  "recommendations smry alerts budget_df =
    (let recs1 = (if savings_rate smry < 20 then [rec_savings_rate] else []);
         recs2 = (if 0 < length alerts then recs1 @ [rec_review_budget] else recs1);
         recs3 =
           (if budget_df \<noteq> [] then
              (case filter (\<lambda>r. 100 < bp_pct_used r) budget_df of
                 [] \<Rightarrow> recs2
               | top_overspend # rest \<Rightarrow> recs2 @ [rec_focus (bp_category_name top_overspend)])
            else recs2)
     in if recs3 = [] then [rec_great_job, rec_keep_up] else recs3)"

text \<open>
  \<^verbatim>\<open>generate_monthly_report\<close> fetches the summary, the budget table and the alerts, and
  before it reaches the recommendation block it formats the income, the expenses and the
  savings of the summary with \<^verbatim>\<open>:,.2f\<close>. In a month without transactions these are
  \<^verbatim>\<open>NULL\<close>, the format raises a \<^verbatim>\<open>TypeError\<close>, and the report prints it and raises it
  again: no recommendations are made. The drawing of the tables, of the chart and of
  the PDF lies outside this model.
\<close>

datatype py_error = TypeError

definition report_recommendations :: "db \<Rightarrow> date \<Rightarrow> py_error + string list" where
  "report_recommendations d today =
    (let smry = get_monthly_summary d today;
         budget_df = get_budget_performance d today;
         alerts = get_alerts d today
     in if income smry = None \<or> expenses smry = None \<or> savings smry = None
        then Inl TypeError
        else Inr (recommendations smry alerts budget_df))"

section \<open>Goal tracker: \<^verbatim>\<open>FinancialDataETL.extract_financial_goals\<close>\<close>

text \<open>
  \<^verbatim>\<open>days_remaining\<close> is \<^verbatim>\<open>target_date - CURRENT_DATE\<close> read in whole days
  (\<^verbatim>\<open>.dt.days\<close>). The columns of the query are the exact decimals PostgreSQL computes;
  \<^verbatim>\<open>monthly_savings_needed\<close> is computed by numpy on the floats pandas holds: the float
  of \<^verbatim>\<open>amount_remaining\<close> divided by the float quotient \<^verbatim>\<open>days / 30\<close>, then
  \<^verbatim>\<open>round(2)\<close>, all in binary64. \<^verbatim>\<open>np.where\<close> computes both of its branches for every row
  and selects one by the condition, so the division may meet a zero divisor in a row
  where it is not selected. \<^verbatim>\<open>ORDER BY priority, pct_complete DESC\<close>: PostgreSQL puts
  \<^verbatim>\<open>NULL\<close> first in a descending order, as \<open>None\<close> is least in the order on options.
\<close>

record goal_row =
  gr_goal_name :: string
  gr_goal_type :: string
  gr_target_amount :: rat
  gr_current_amount :: rat
  gr_target_date :: date
  gr_priority :: int
  gr_amount_remaining :: rat
  gr_pct_complete :: "rat option"
  gr_days_remaining :: int
  gr_monthly_savings_needed :: float64

definition np_where :: "bool \<Rightarrow> 'a \<Rightarrow> 'a \<Rightarrow> 'a" where
  "np_where c a b = (if c then a else b)"

definition goal_query_row :: "date \<Rightarrow> financial_goal \<Rightarrow> goal_row" where
  "goal_query_row today g =
    (let amount_remaining = g_target_amount g - g_current_amount g;
         days_remaining = g_target_date g - today
     in \<lparr>gr_goal_name = g_goal_name g, gr_goal_type = g_goal_type g,
         gr_target_amount = g_target_amount g, gr_current_amount = g_current_amount g,
         gr_target_date = g_target_date g, gr_priority = g_priority g,
         gr_amount_remaining = amount_remaining,
         gr_pct_complete =
           map_option (\<lambda>a. pg_round 2 (g_current_amount g / a * 100))
             (nullif0 (g_target_amount g)),
         gr_days_remaining = days_remaining,
         gr_monthly_savings_needed =
           b64_round 2
             (np_where (0 < days_remaining)
                (b64_div (b64 amount_remaining)
                   (b64_div (b64 (of_int days_remaining)) (Finite 30)))
                (Finite 0))\<rparr>)"

definition extract_financial_goals :: "db \<Rightarrow> date \<Rightarrow> goal_row list" where
  "extract_financial_goals d today =
    sort_key (\<lambda>r. (gr_priority r, map_option uminus (gr_pct_complete r)))
      (map (goal_query_row today) (filter g_is_active (financial_goals d)))"

section \<open>Merchant profiler: \<^verbatim>\<open>FinancialDataETL.extract_merchant_analysis\<close>\<close>






section \<open>Category spending: \<^verbatim>\<open>FinancialDataETL.extract_category_spending\<close>\<close>

record category_spending_row =
  cs_month :: "int \<times> int"
  cs_category_name :: string
  cs_parent_category :: "string option"
  cs_total_spend :: rat
  cs_transaction_count :: nat
  cs_avg_transaction :: rat

text \<open>
  The joined and filtered rows of the query: a debit transaction, its category, which has
  a parent reference, and the category row of that parent, if there is one.
\<close>

definition category_spending_rows :: "db \<Rightarrow> ((transaction \<times> category) \<times> category option) list" where
  "category_spending_rows d =
    filter (\<lambda>((t, c), p). t_transaction_type t = ''debit'' \<and> c_parent_category_id c \<noteq> None)
      (left_join (\<lambda>(t, c) p. c_parent_category_id c = Some (c_category_id p))
        (transactions_join_categories d) (categories d))"

definition extract_category_spending :: "db \<Rightarrow> category_spending_row list" where
  "extract_category_spending d =
    sort_key (\<lambda>r. ((- fst (cs_month r), - snd (cs_month r)), - cs_total_spend r))
      (map (\<lambda>((m, cname, pname), g).
             \<lparr>cs_month = m, cs_category_name = cname, cs_parent_category = pname,
              cs_total_spend = sum_list (map (\<lambda>((t, c), p). t_amount t) g),
              cs_transaction_count = length g,
              cs_avg_transaction =
                sum_list (map (\<lambda>((t, c), p). t_amount t) g) / of_nat (length g)\<rparr>)
        (group_by
          (\<lambda>((t, c), p). (date_trunc_month (t_transaction_date t), c_category_name c,
                           map_option c_category_name p))
          (category_spending_rows d)))"

section \<open>Excel export: \<^verbatim>\<open>FinancialDataETL.export_to_excel\<close>\<close>

















section \<open>Reference quantities and example data\<close>

text \<open>
  The quantities the properties below compare the queries with, written from their
  description: the debit total of one category in the month of \<open>today\<close>, and the primary
  key of the category table.
\<close>

definition category_debit_total :: "db \<Rightarrow> date \<Rightarrow> int \<Rightarrow> rat" where
  "category_debit_total d today cid =
    sum_list (map t_amount
      (filter (\<lambda>t. t_category_id t = cid
                  \<and> date_trunc_month (t_transaction_date t) = date_trunc_month today
                  \<and> t_transaction_type t = ''debit'')
        (transactions d)))"

definition category_key :: "db \<Rightarrow> bool" where
  "category_key d = distinct (map c_category_id (categories d))"

definition has_parent :: "category \<Rightarrow> bool" where
  "has_parent c = (c_parent_category_id c \<noteq> None)"

text \<open>
  A small ledger of February 2024 (day 19754 is 2024-02-01): a salary of 5000, Groceries
  at 650 of a budget of 600, Coffee Shops at 150 of a budget of 100, and 3400 booked
  directly on the top-level category Food, which holds a budget of 0. One more coffee was
  bought in January.
\<close>

definition salary :: category where
  "salary = \<lparr>c_category_id = 1, c_category_name = ''Salary'',
             c_parent_category_id = None, c_category_type = ''income''\<rparr>"

definition food :: category where
  "food = \<lparr>c_category_id = 2, c_category_name = ''Food'',
           c_parent_category_id = None, c_category_type = ''expense''\<rparr>"

definition groceries :: category where
  "groceries = \<lparr>c_category_id = 3, c_category_name = ''Groceries'',
                c_parent_category_id = Some 2, c_category_type = ''expense''\<rparr>"

definition coffee_shops :: category where
  "coffee_shops = \<lparr>c_category_id = 4, c_category_name = ''Coffee Shops'',
                   c_parent_category_id = Some 2, c_category_type = ''expense''\<rparr>"

definition emergency_fund :: financial_goal where
  "emergency_fund = \<lparr>g_goal_name = ''Emergency Fund'', g_goal_type = ''emergency_fund'',
      g_target_amount = 15000, g_current_amount = 8500, g_target_date = 19970,
      g_priority = 1, g_is_active = True\<rparr>"

definition ledger :: db where
  "ledger =
    \<lparr>categories = [salary, food, groceries, coffee_shops],
     transactions =
       [\<lparr>t_transaction_id = 1, t_category_id = 1, t_transaction_date = 19754,
         t_amount = 5000, t_merchant = Some ''Employer Inc'', t_transaction_type = ''credit''\<rparr>,
        \<lparr>t_transaction_id = 2, t_category_id = 3, t_transaction_date = 19760,
         t_amount = 650, t_merchant = Some ''Safeway'', t_transaction_type = ''debit''\<rparr>,
        \<lparr>t_transaction_id = 3, t_category_id = 4, t_transaction_date = 19765,
         t_amount = 150, t_merchant = Some ''Starbucks'', t_transaction_type = ''debit''\<rparr>,
        \<lparr>t_transaction_id = 4, t_category_id = 4, t_transaction_date = 19735,
         t_amount = 7, t_merchant = Some ''Starbucks'', t_transaction_type = ''debit''\<rparr>,
        \<lparr>t_transaction_id = 5, t_category_id = 2, t_transaction_date = 19765,
         t_amount = 3400, t_merchant = None, t_transaction_type = ''debit''\<rparr>],
     budgets =
       [\<lparr>b_category_id = 3, b_budget_period = ''monthly'', b_budget_amount = 600,
         b_is_active = True\<rparr>,
        \<lparr>b_category_id = 4, b_budget_period = ''monthly'', b_budget_amount = 100,
         b_is_active = True\<rparr>,
        \<lparr>b_category_id = 2, b_budget_period = ''monthly'', b_budget_amount = 0,
         b_is_active = True\<rparr>],
     financial_goals = [emergency_fund]\<rparr>"

text \<open>
  A ledger with a salary in January 2024 and, in February, one grocery purchase of 50, a
  refund of 20 credited to Groceries, and no income.
\<close>

definition refund_ledger :: db where
  "refund_ledger =
    \<lparr>categories = [salary, food, groceries],
     transactions =
       [\<lparr>t_transaction_id = 1, t_category_id = 1, t_transaction_date = 19723,
         t_amount = 5000, t_merchant = Some ''Employer Inc'', t_transaction_type = ''credit''\<rparr>,
        \<lparr>t_transaction_id = 2, t_category_id = 3, t_transaction_date = 19760,
         t_amount = 50, t_merchant = Some ''Safeway'', t_transaction_type = ''debit''\<rparr>,
        \<lparr>t_transaction_id = 3, t_category_id = 3, t_transaction_date = 19765,
         t_amount = 20, t_merchant = Some ''Safeway'', t_transaction_type = ''credit''\<rparr>],
     budgets = [], financial_goals = []\<rparr>"

text \<open>The ledger of February with a budget of 0 on Groceries, and a goal with target 0.\<close>

definition zero_budget_ledger :: db where
  "zero_budget_ledger =
    refund_ledger\<lparr>budgets := [\<lparr>b_category_id = 3, b_budget_period = ''monthly'',
                                b_budget_amount = 0, b_is_active = True\<rparr>]\<rparr>"

definition zero_target_ledger :: db where
  "zero_target_ledger =
    refund_ledger\<lparr>financial_goals :=
      [emergency_fund\<lparr>g_goal_name := ''Placeholder'', g_target_amount := 0,
                       g_current_amount := 10\<rparr>]\<rparr>"

text \<open>
  The row of \<^verbatim>\<open>current_month_spending\<close> that a category stands for: its own debit total
  of the month, and the number of those debits.
\<close>

definition spending_of :: "db \<Rightarrow> date \<Rightarrow> category \<Rightarrow> spending_row" where
  "spending_of d today c =
    \<lparr>cms_category_id = c_category_id c, cms_category_name = c_category_name c,
     cms_actual_spend = category_debit_total d today (c_category_id c),
     cms_num_transactions =
       length (filter (\<lambda>t. t_category_id t = c_category_id c
                  \<and> date_trunc_month (t_transaction_date t) = date_trunc_month today
                  \<and> t_transaction_type t = ''debit'')
                (transactions d))\<rparr>"

text \<open>
  The roll-up of the category spending: the sum, over the rows of the month of \<open>today\<close>
  whose category name is that of an expense category, of the per-category debit totals.
  Next to it, the debits of the month booked directly on expense categories without a
  parent, and the uniqueness of category names, by which the spending query groups.
\<close>

definition category_rollup :: "db \<Rightarrow> date \<Rightarrow> rat" where
  "category_rollup d today =
    sum_list (map cs_total_spend
      (filter (\<lambda>r. cs_month r = date_trunc_month today
                  \<and> cs_category_name r
                      \<in> set (map c_category_name
                               (filter (\<lambda>c. c_category_type c = ''expense'') (categories d))))
        (extract_category_spending d)))"

definition top_level_expense_debits :: "db \<Rightarrow> date \<Rightarrow> rat" where
  "top_level_expense_debits d today =
    sum_list (map (\<lambda>(t, c). t_amount t)
      (filter (\<lambda>(t, c). c_category_type c = ''expense'' \<and> t_transaction_type t = ''debit''
                        \<and> c_parent_category_id c = None)
        (current_month_rows d today)))"

definition category_name_key :: "db \<Rightarrow> bool" where
  "category_name_key d = distinct (map c_category_name (categories d))"



text \<open>
  The ledger of February 2024 with other amounts: Groceries at 900 of a budget of 600
  (300 over, 150 percent), Coffee Shops at 160 of a budget of 100 (60 over, 160 percent),
  3140 booked on Food; income 5000, expenses 4200.
\<close>

definition overspend_ledger :: db where
  "overspend_ledger =
    \<lparr>categories = [salary, food, groceries, coffee_shops],
     transactions =
       [\<lparr>t_transaction_id = 1, t_category_id = 1, t_transaction_date = 19754,
         t_amount = 5000, t_merchant = Some ''Employer Inc'', t_transaction_type = ''credit''\<rparr>,
        \<lparr>t_transaction_id = 2, t_category_id = 3, t_transaction_date = 19760,
         t_amount = 900, t_merchant = Some ''Safeway'', t_transaction_type = ''debit''\<rparr>,
        \<lparr>t_transaction_id = 3, t_category_id = 4, t_transaction_date = 19765,
         t_amount = 160, t_merchant = Some ''Starbucks'', t_transaction_type = ''debit''\<rparr>,
        \<lparr>t_transaction_id = 4, t_category_id = 2, t_transaction_date = 19765,
         t_amount = 3140, t_merchant = None, t_transaction_type = ''debit''\<rparr>],
     budgets =
       [\<lparr>b_category_id = 3, b_budget_period = ''monthly'', b_budget_amount = 600,
         b_is_active = True\<rparr>,
        \<lparr>b_category_id = 4, b_budget_period = ''monthly'', b_budget_amount = 100,
         b_is_active = True\<rparr>],
     financial_goals = []\<rparr>"

text \<open>A goal in cents: 2.90 remaining of a target of 10, due in 200 days from day 19770.\<close>

definition cents_goal :: financial_goal where
  "cents_goal = \<lparr>g_goal_name = ''Small Fund'', g_goal_type = ''savings'',
      g_target_amount = 10, g_current_amount = 71 / 10, g_target_date = 19970,
      g_priority = 2, g_is_active = True\<rparr>"

section \<open>Properties of the monthly summary\<close>

lemma sql_sum_Some:
  "sql_sum (map (\<lambda>x. Some (f x)) xs) = (if xs = [] then None else Some (sum_list (map f xs)))"
  by (cases xs) (simp_all add: sql_sum_def List.map_filter_def comp_def)

text \<open>
  The report's summary does what the summary is described to do, up to the rounding of
  the rate to two decimals: in a month with at least one transaction, income and expenses
  are the two conditional sums, and the rate is guarded by \<open>0 < income\<close>.
\<close>

lemma get_monthly_summary_nonempty:
  assumes "current_month_rows d today \<noteq> []"
  defines "I \<equiv> sum_list (map (\<lambda>(t, c).
      if c_category_type c = ''income'' then t_amount t else 0) (current_month_rows d today))"
  defines "E \<equiv> sum_list (map (\<lambda>(t, c).
      if c_category_type c = ''expense'' \<and> t_transaction_type t = ''debit''
      then t_amount t else 0) (current_month_rows d today))"
  shows "get_monthly_summary d today =
     \<lparr>income = Some I, expenses = Some E, savings = Some (I - E),
      savings_rate = (if 0 < I then pg_round 2 ((I - E) / I * 100) else 0)\<rparr>"
  using assms(1) unfolding get_monthly_summary_def I_def E_def
  by (simp add: sql_sum_Some sql_minus_def case_prod_unfold Let_def)

text \<open>
  C1. A monthly summary has income = the sum of the amounts booked on income categories,
  expenses = the sum of the debits booked on expense categories (credits such as refunds
  left out), savings = income - expenses, and a savings rate of savings / income * 100
  that is 0 when income is 0, never an infinity or NaN.

  The ETL summary does not keep to this. In February of \<open>refund_ledger\<close> (a purchase of
  50, a refund of 20, no income) it reports expenses of 70, the refund included, and a
  savings rate of minus infinity, the float division by the zero income being unguarded.
  The report's summary of the same month has expenses 50 and the rate 0.
\<close>

theorem extract_monthly_summary_unguarded:
  "extract_monthly_summary refund_ledger =
     [\<lparr>mp_month = (2024, 1), mp_columns = [(''expense'', 0), (''income'', 5000)],
       mp_savings = Some 5000, mp_savings_rate = Some (Finite 100)\<rparr>,
      \<lparr>mp_month = (2024, 2), mp_columns = [(''expense'', 70), (''income'', 0)],
       mp_savings = Some (- 70), mp_savings_rate = Some NegInf\<rparr>]
   \<and> get_monthly_summary refund_ledger 19770 =
     \<lparr>income = Some 0, expenses = Some 50, savings = Some (- 50), savings_rate = 0\<rparr>"
  by code_simp

section \<open>Properties of the alert classifier\<close>

lemma digits_of_small: "n < 10 \<Longrightarrow> digits_of n = [digit_char n]"
  by (subst digits_of.simps) simp

lemma digits_of_large:
  "\<not> n < 10 \<Longrightarrow> digits_of n = digits_of (n div 10) @ [digit_char (n mod 10)]"
  by (subst digits_of.simps) simp

lemmas format_simps =
  format_f_def round_half_even_def digits_of_small digits_of_large digit_char_def

lemma budget_alerts_eq:
  "budget_alerts df = map exceeded_alert (filter (\<lambda>r. 100 < bp_pct_used r) df)
      @ map warning_alert (filter (\<lambda>r. 90 \<le> bp_pct_used r \<and> bp_pct_used r \<le> 100) df)"
  by (simp add: budget_alerts_def Let_def)

lemma mset_budget_alerts:
  "mset (budget_alerts df) = mset (concat (map (\<lambda>r. budget_alerts [r]) df))"
  by (induction df) (auto simp: budget_alerts_eq)

lemma length_budget_alerts:
  "length (budget_alerts df) = length (filter (\<lambda>r. 90 \<le> bp_pct_used r) df)"
  by (induction df) (auto simp: budget_alerts_eq)

lemma ledger_budget_performance:
  "get_budget_performance ledger 19770 =
     [\<lparr>bp_category_name = ''Coffee Shops'', bp_budget = 100, bp_actual_spend = 150,
       bp_variance = - 50, bp_pct_used = 150\<rparr>,
      \<lparr>bp_category_name = ''Groceries'', bp_budget = 600, bp_actual_spend = 650,
       bp_variance = - 50, bp_pct_used = 1083 / 10\<rparr>]"
  by code_simp

lemma ledger_alerts:
  "get_alerts ledger 19770 =
     [exceeded_alert \<lparr>bp_category_name = ''Coffee Shops'', bp_budget = 100,
        bp_actual_spend = 150, bp_variance = - 50, bp_pct_used = 150\<rparr>,
      exceeded_alert \<lparr>bp_category_name = ''Groceries'', bp_budget = 600,
        bp_actual_spend = 650, bp_variance = - 50, bp_pct_used = 1083 / 10\<rparr>]"
  unfolding get_alerts_def ledger_budget_performance by (simp add: budget_alerts_eq)

text \<open>
  C3. Every row of the budget table gives exactly one alert when pct_used > 100 (type
  budget_exceeded, severity high, a message with the actual spend and the absolute
  overage), exactly one when 90 \<le> pct_used \<le> 100 (type budget_warning, severity medium,
  a message with the percentage used), and none below 90. A row at exactly 100 gives a
  warning, a row at 100.01 an exceeded alert, and no row gives both. The alerts of a table
  are those of its rows (the exceeded alerts come first), one per row at 90 or above.
\<close>

theorem budget_alerts_classification:
  "budget_alerts [r] =
     (if 100 < bp_pct_used r then [exceeded_alert r]
      else if 90 \<le> bp_pct_used r then [warning_alert r] else [])
   \<and> mset (budget_alerts df) = mset (concat (map (\<lambda>r. budget_alerts [r]) df))
   \<and> length (budget_alerts df) = length (filter (\<lambda>r. 90 \<le> bp_pct_used r) df)
   \<and> budget_alerts [r\<lparr>bp_pct_used := 100\<rparr>] = [warning_alert (r\<lparr>bp_pct_used := 100\<rparr>)]
   \<and> budget_alerts [r\<lparr>bp_pct_used := 10001 / 100\<rparr>]
       = [exceeded_alert (r\<lparr>bp_pct_used := 10001 / 100\<rparr>)]
   \<and> alert_type (exceeded_alert r) = ''budget_exceeded''
   \<and> severity (exceeded_alert r) = ''high''
   \<and> message (exceeded_alert r) =
       red_circle @ '' '' @ bp_category_name r @ '': $'' @ format_f 2 (bp_actual_spend r)
       @ '' spent ($'' @ format_f 2 \<bar>bp_variance r\<bar> @ '' over budget)''
   \<and> alert_type (warning_alert r) = ''budget_warning''
   \<and> severity (warning_alert r) = ''medium''
   \<and> message (warning_alert r) =
       yellow_circle @ '' '' @ bp_category_name r @ '': '' @ format_f 1 (bp_pct_used r)
       @ ''% of budget used''"
proof -
  have one: "budget_alerts [r] =
     (if 100 < bp_pct_used r then [exceeded_alert r]
      else if 90 \<le> bp_pct_used r then [warning_alert r] else [])" for r
    by (simp add: budget_alerts_eq)
  have bounds: "budget_alerts [r\<lparr>bp_pct_used := 100\<rparr>] = [warning_alert (r\<lparr>bp_pct_used := 100\<rparr>)]"
    "budget_alerts [r\<lparr>bp_pct_used := 10001 / 100\<rparr>]
       = [exceeded_alert (r\<lparr>bp_pct_used := 10001 / 100\<rparr>)]"
    by (simp_all add: one)
  have fields: "alert_type (exceeded_alert r) = ''budget_exceeded''"
    "severity (exceeded_alert r) = ''high''"
    "alert_type (warning_alert r) = ''budget_warning''"
    "severity (warning_alert r) = ''medium''"
    by (simp_all add: exceeded_alert_def warning_alert_def)
  have msgs: "message (exceeded_alert r) =
       red_circle @ '' '' @ bp_category_name r @ '': $'' @ format_f 2 (bp_actual_spend r)
       @ '' spent ($'' @ format_f 2 \<bar>bp_variance r\<bar> @ '' over budget)''"
    "message (warning_alert r) =
       yellow_circle @ '' '' @ bp_category_name r @ '': '' @ format_f 1 (bp_pct_used r)
       @ ''% of budget used''"
    by (simp_all add: exceeded_alert_def warning_alert_def)
  from one[of r] mset_budget_alerts[of df] length_budget_alerts[of df] bounds fields msgs
  show ?thesis by blast
qed

theorem budget_alerts_classification_witness:
  "map alert_type (get_alerts ledger 19770) = [''budget_exceeded'', ''budget_exceeded'']
   \<and> map message (get_alerts ledger 19770) =
      [red_circle @ '' Coffee Shops: $150.00 spent ($50.00 over budget)'',
       red_circle @ '' Groceries: $650.00 spent ($50.00 over budget)'']"
proof -
  let ?coffee = "\<lparr>bp_category_name = ''Coffee Shops'', bp_budget = 100,
       bp_actual_spend = 150, bp_variance = - 50, bp_pct_used = 150\<rparr>"
  let ?groceries = "\<lparr>bp_category_name = ''Groceries'', bp_budget = 600,
       bp_actual_spend = 650, bp_variance = - 50, bp_pct_used = 1083 / 10\<rparr>"
  have f: "format_f 2 150 = ''150.00''" "format_f 2 650 = ''650.00''"
    "format_f 2 50 = ''50.00''"
    by (simp_all add: format_simps)
  have a: "get_alerts ledger 19770 = [exceeded_alert ?coffee, exceeded_alert ?groceries]"
    by (rule ledger_alerts)
  from budget_alerts_classification[of ?coffee "[]"]
  have c: "alert_type (exceeded_alert ?coffee) = ''budget_exceeded''"
    "message (exceeded_alert ?coffee) =
       red_circle @ '' Coffee Shops: $150.00 spent ($50.00 over budget)''"
    by (simp_all add: f)
  from budget_alerts_classification[of ?groceries "[]"]
  have g: "alert_type (exceeded_alert ?groceries) = ''budget_exceeded''"
    "message (exceeded_alert ?groceries) =
       red_circle @ '' Groceries: $650.00 spent ($50.00 over budget)''"
    by (simp_all add: f)
  show ?thesis unfolding a using c g by simp
qed

section \<open>Properties of the budget evaluators\<close>

lemma get_budget_performance_sorted:
  "sorted_wrt (\<lambda>r1 r2. bp_pct_used r2 \<le> bp_pct_used r1) (get_budget_performance d today)"
proof -
  have "sorted (map (\<lambda>r. - bp_pct_used r) (get_budget_performance d today))"
    unfolding get_budget_performance_def by (rule sorted_sort_key)
  then show ?thesis by (simp add: sorted_map)
qed

text \<open>
  C8. The result of the budget evaluator is sorted, descending by actual spend or
  descending by pct_used. What the code guarantees: the ETL evaluator always sorts by actual spend and
  the report's evaluator always by pct_used; neither takes the ordering as a parameter.
\<close>

theorem budget_performance_order:
  "sorted_wrt (\<lambda>r1 r2. eb_actual_spend r2 \<le> eb_actual_spend r1)
     (extract_budget_performance d today)
   \<and> sorted_wrt (\<lambda>r1 r2. bp_pct_used r2 \<le> bp_pct_used r1)
     (get_budget_performance d today)"
proof -
  have "sorted (map (\<lambda>r. - eb_actual_spend r) (extract_budget_performance d today))"
    unfolding extract_budget_performance_def by (rule sorted_sort_key)
  then show ?thesis
    using get_budget_performance_sorted[of d today] by (simp add: sorted_map)
qed

text \<open>
  On \<open>ledger\<close> the ETL evaluator's rows (Groceries 108.3 percent, Coffee Shops 150
  percent) do not descend by pct_used, and the report's rows (Coffee Shops 150, Groceries
  650) do not descend by actual spend: the consumer of an evaluator cannot select the
  other ordering.
\<close>

theorem budget_performance_order_not_selectable:
  "\<not> sorted_wrt (\<lambda>r1 r2. eb_pct_used r2 \<le> eb_pct_used r1)
       (extract_budget_performance ledger 19770)
   \<and> \<not> sorted_wrt (\<lambda>r1 r2. bp_actual_spend r2 \<le> bp_actual_spend r1)
       (get_budget_performance ledger 19770)"
proof -
  have e: "map eb_pct_used (extract_budget_performance ledger 19770)
            = [Some (1083 / 10), Some 150]"
    by code_simp
  have "\<not> sorted_wrt (\<lambda>a b. b \<le> a)
           (map eb_pct_used (extract_budget_performance ledger 19770))"
    unfolding e by simp
  moreover have "\<not> sorted_wrt (\<lambda>a b. b \<le> a)
           (map bp_actual_spend (get_budget_performance ledger 19770))"
    unfolding ledger_budget_performance by simp
  ultimately show ?thesis by (simp add: sorted_wrt_map)
qed

section \<open>Properties of the recommendations\<close>

lemma recommendations_fired:
  "recommendations s alerts df =
     (let fired = (if savings_rate s < 20 then [rec_savings_rate] else [])
                @ (if alerts \<noteq> [] then [rec_review_budget] else [])
                @ (case filter (\<lambda>r. 100 < bp_pct_used r) df of
                     [] \<Rightarrow> []
                   | top_overspend # rest \<Rightarrow> [rec_focus (bp_category_name top_overspend)])
      in if fired = [] then [rec_great_job, rec_keep_up] else fired)"
  by (cases df; cases "filter (\<lambda>r. 100 < bp_pct_used r) df")
     (simp_all add: recommendations_def Let_def)

lemma rec_strings_differ:
  "rec_great_job \<noteq> rec_savings_rate" "rec_great_job \<noteq> rec_review_budget"
  by (simp_all add: rec_great_job_def rec_savings_rate_def rec_review_budget_def bullet_def)

lemma recommendations_default:
  "(recommendations s alerts df = [rec_great_job, rec_keep_up])
     = (\<not> savings_rate s < 20 \<and> alerts = []
        \<and> filter (\<lambda>r. 100 < bp_pct_used r) df = [])"
  unfolding recommendations_fired Let_def
  using rec_strings_differ
  by (cases "filter (\<lambda>r. 100 < bp_pct_used r) df") auto

lemma ledger_summary:
  "get_monthly_summary ledger 19770 =
     \<lparr>income = Some 5000, expenses = Some 4200, savings = Some 800, savings_rate = 16\<rparr>"
  by code_simp

lemma report_recommendations_eq:
  "report_recommendations d today =
     (if current_month_rows d today = [] then Inl TypeError
      else Inr (recommendations (get_monthly_summary d today) (get_alerts d today)
                  (get_budget_performance d today)))"
proof (cases "current_month_rows d today = []")
  case True
  then have "income (get_monthly_summary d today) = None"
    by (simp add: get_monthly_summary_def Let_def sql_sum_def List.map_filter_simps)
  with True show ?thesis by (simp add: report_recommendations_def Let_def)
next
  case False
  from get_monthly_summary_nonempty[OF False]
  have "income (get_monthly_summary d today) \<noteq> None"
    "expenses (get_monthly_summary d today) \<noteq> None"
    "savings (get_monthly_summary d today) \<noteq> None"
    by simp_all
  with False show ?thesis by (simp add: report_recommendations_def Let_def)
qed

lemma alerts_exist_iff:
  "(get_alerts d today \<noteq> [])
     = (filter (\<lambda>r. 90 \<le> bp_pct_used r) (get_budget_performance d today) \<noteq> [])"
proof -
  have "(get_alerts d today = [])
      = (length (filter (\<lambda>r. 90 \<le> bp_pct_used r) (get_budget_performance d today)) = 0)"
    unfolding get_alerts_def length_budget_alerts[symmetric] by simp
  then show ?thesis by simp
qed

lemma overspend_budget_performance:
  "get_budget_performance overspend_ledger 19770 =
     [\<lparr>bp_category_name = ''Coffee Shops'', bp_budget = 100, bp_actual_spend = 160,
       bp_variance = - 60, bp_pct_used = 160\<rparr>,
      \<lparr>bp_category_name = ''Groceries'', bp_budget = 600, bp_actual_spend = 900,
       bp_variance = - 300, bp_pct_used = 150\<rparr>]"
  by code_simp

lemma overspend_summary:
  "get_monthly_summary overspend_ledger 19770 =
     \<lparr>income = Some 5000, expenses = Some 4200, savings = Some 800, savings_rate = 16\<rparr>"
  by code_simp

lemma overspend_rows: "current_month_rows overspend_ledger 19770 \<noteq> []"
proof
  assume "current_month_rows overspend_ledger 19770 = []"
  then have "income (get_monthly_summary overspend_ledger 19770) = None"
    by (simp add: get_monthly_summary_def Let_def sql_sum_def List.map_filter_simps)
  then show False by (simp add: overspend_summary)
qed

lemma zero_budget_facts:
  "get_budget_performance zero_budget_ledger 19770 =
     [\<lparr>bp_category_name = ''Groceries'', bp_budget = 0, bp_actual_spend = 50,
       bp_variance = - 50, bp_pct_used = 0\<rparr>]"
  "get_monthly_summary zero_budget_ledger 19770 =
     \<lparr>income = Some 0, expenses = Some 50, savings = Some (- 50), savings_rate = 0\<rparr>"
  by code_simp+

lemma zero_budget_rows: "current_month_rows zero_budget_ledger 19770 \<noteq> []"
proof
  assume "current_month_rows zero_budget_ledger 19770 = []"
  then have "income (get_monthly_summary zero_budget_ledger 19770) = None"
    by (simp add: get_monthly_summary_def Let_def sql_sum_def List.map_filter_simps)
  then show False by (simp add: zero_budget_facts)
qed

text \<open>
  C7. The recommendations are built by rules in this order: a savings rate below 20 asks
  to raise the savings rate (income 5000 and expenses 4200 give the rate 16, and the rule
  fires); any alert asks to review the exceeded categories; any category over its budget
  asks to focus on the single highest-overspend category; and the default pair is the
  result if and only if no rule fired. What the code guarantees: the order of the rules
  and the default pair are as said. An alert exists as soon as a row of the budget table
  is at 90 percent or more. The third rule looks at pct_used, which is rounded to one
  decimal and is 0 for a budget of 0: it fires when a row of the budget table has
  pct_used above 100, and it names the first such row, the row with the highest pct_used
  of the table and not the one with the largest amount over budget. In a month without
  any transaction the report raises a TypeError before it builds the recommendations.
\<close>

theorem recommendations_rules:
  "recommendations s alerts df =
     (let fired = (if savings_rate s < 20 then [rec_savings_rate] else [])
                @ (if alerts \<noteq> [] then [rec_review_budget] else [])
                @ (case filter (\<lambda>r. 100 < bp_pct_used r) df of
                     [] \<Rightarrow> []
                   | top_overspend # rest \<Rightarrow> [rec_focus (bp_category_name top_overspend)])
      in if fired = [] then [rec_great_job, rec_keep_up] else fired)
   \<and> ((recommendations s alerts df = [rec_great_job, rec_keep_up])
        = (\<not> savings_rate s < 20 \<and> alerts = []
           \<and> filter (\<lambda>r. 100 < bp_pct_used r) df = []))
   \<and> report_recommendations d today =
        (if current_month_rows d today = [] then Inl TypeError
         else Inr (recommendations (get_monthly_summary d today) (get_alerts d today)
                     (get_budget_performance d today)))
   \<and> ((get_alerts d today \<noteq> [])
        = (filter (\<lambda>r. 90 \<le> bp_pct_used r) (get_budget_performance d today) \<noteq> []))
   \<and> (report_recommendations d today = Inr recs
        \<and> get_budget_performance d today = first_row # others \<and> 100 < bp_pct_used first_row
        \<longrightarrow> last recs = rec_focus (bp_category_name first_row)
            \<and> (\<forall>r \<in> set others. bp_pct_used r \<le> bp_pct_used first_row))
   \<and> (report_recommendations d today = Inr recs
        \<and> filter (\<lambda>r. 100 < bp_pct_used r) (get_budget_performance d today) = []
        \<longrightarrow> (\<forall>cname. rec_focus cname \<notin> set recs))"
proof -
  have first: "last recs = rec_focus (bp_category_name first_row)
            \<and> (\<forall>r \<in> set others. bp_pct_used r \<le> bp_pct_used first_row)"
    if rr: "report_recommendations d today = Inr recs"
      and df: "get_budget_performance d today = first_row # others"
      and over: "100 < bp_pct_used first_row"
  proof -
    have "\<forall>r \<in> set others. bp_pct_used r \<le> bp_pct_used first_row"
      using get_budget_performance_sorted[of d today] unfolding df by simp
    moreover from rr have "recs = recommendations (get_monthly_summary d today)
        (get_alerts d today) (get_budget_performance d today)"
      unfolding report_recommendations_eq by (simp split: if_splits)
    then have "last recs = rec_focus (bp_category_name first_row)"
      unfolding recommendations_fired df using over by (simp add: Let_def)
    ultimately show ?thesis by blast
  qed
  have none: "rec_focus cname \<notin> set recs"
    if rr: "report_recommendations d today = Inr recs"
      and "filter (\<lambda>r. 100 < bp_pct_used r) (get_budget_performance d today) = []" for cname
  proof -
    from rr have "recs = recommendations (get_monthly_summary d today)
        (get_alerts d today) (get_budget_performance d today)"
      unfolding report_recommendations_eq by (simp split: if_splits)
    then show ?thesis
      unfolding recommendations_fired using that(2)
      by (simp add: Let_def rec_focus_def rec_savings_rate_def rec_review_budget_def
            rec_great_job_def rec_keep_up_def bullet_def)
  qed
  from recommendations_fired[of s alerts df] recommendations_default[of s alerts df]
    report_recommendations_eq[of d today] alerts_exist_iff[of d today] first none
  show ?thesis by blast
qed

theorem recommendations_rules_witness:
  "savings_rate (get_monthly_summary overspend_ledger 19770) = 16
   \<and> map bp_pct_used (get_budget_performance overspend_ledger 19770) = [160, 150]
   \<and> report_recommendations overspend_ledger 19770
       = Inr [rec_savings_rate, rec_review_budget, rec_focus ''Coffee Shops'']"
proof -
  note rules = recommendations_rules[of "get_monthly_summary overspend_ledger 19770"
        "get_alerts overspend_ledger 19770" "get_budget_performance overspend_ledger 19770"
        overspend_ledger 19770]
  from rules have a: "get_alerts overspend_ledger 19770 \<noteq> []"
    by (simp add: overspend_budget_performance)
  from rules overspend_rows
  have "report_recommendations overspend_ledger 19770
      = Inr (recommendations (get_monthly_summary overspend_ledger 19770)
               (get_alerts overspend_ledger 19770)
               (get_budget_performance overspend_ledger 19770))"
    by simp
  also from rules a
  have "recommendations (get_monthly_summary overspend_ledger 19770)
               (get_alerts overspend_ledger 19770)
               (get_budget_performance overspend_ledger 19770)
      = [rec_savings_rate, rec_review_budget, rec_focus ''Coffee Shops'']"
    by (simp add: overspend_summary overspend_budget_performance)
  finally show ?thesis
    by (simp add: overspend_summary overspend_budget_performance)
qed

text \<open>
  On \<open>overspend_ledger\<close> Groceries is 300 over its budget and Coffee Shops 60, and the
  report asks to focus on Coffee Shops, which has the higher percentage. On
  \<open>zero_budget_ledger\<close> Groceries has spent 50 of a budget of 0, so it is over its budget,
  but its pct_used is 0: no alert, and no recommendation to focus on it.
\<close>

theorem recommendations_focus_by_pct_used:
  "map bp_category_name (get_budget_performance overspend_ledger 19770)
     = [''Coffee Shops'', ''Groceries'']
   \<and> map bp_variance (get_budget_performance overspend_ledger 19770) = [- 60, - 300]
   \<and> report_recommendations overspend_ledger 19770
       = Inr [rec_savings_rate, rec_review_budget, rec_focus ''Coffee Shops'']
   \<and> map bp_budget (get_budget_performance zero_budget_ledger 19770) = [0]
   \<and> map bp_actual_spend (get_budget_performance zero_budget_ledger 19770) = [50]
   \<and> report_recommendations zero_budget_ledger 19770 = Inr [rec_savings_rate]"
proof -
  have "get_alerts overspend_ledger 19770 \<noteq> []"
    unfolding alerts_exist_iff by (simp add: overspend_budget_performance)
  then have o: "report_recommendations overspend_ledger 19770
       = Inr [rec_savings_rate, rec_review_budget, rec_focus ''Coffee Shops'']"
    unfolding report_recommendations_eq recommendations_fired using overspend_rows
    by (simp add: overspend_summary overspend_budget_performance)
  have "get_alerts zero_budget_ledger 19770 = []"
    using alerts_exist_iff[of zero_budget_ledger 19770] by (simp add: zero_budget_facts)
  then have z: "report_recommendations zero_budget_ledger 19770 = Inr [rec_savings_rate]"
    unfolding report_recommendations_eq recommendations_fired using zero_budget_rows
    by (simp add: zero_budget_facts)
  from o z show ?thesis
    by (simp add: overspend_budget_performance zero_budget_facts)
qed

section \<open>Properties of the goal tracker\<close>

lemma b64_round_0: "b64_round n (Finite 0) = Finite 0"
  by (simp add: b64_round_def b64_def round_half_even_def)

lemma ledger_goal_row:
  "goal_query_row 19770 emergency_fund =
     \<lparr>gr_goal_name = ''Emergency Fund'', gr_goal_type = ''emergency_fund'',
      gr_target_amount = 15000, gr_current_amount = 8500, gr_target_date = 19970,
      gr_priority = 1, gr_amount_remaining = 6500, gr_pct_complete = Some (5667 / 100),
      gr_days_remaining = 200, gr_monthly_savings_needed = Finite 975\<rparr>"
  by code_simp

text \<open>
  The float quotient decides the cent: for 2.90 remaining and 200 days it is
  0.43499999999999994, which rounds to 0.43, where the exact quotient 0.435 would round
  to 0.44.
\<close>

lemma cents_goal_rounding:
  "b64_round 2 (b64_div (b64 (29 / 10)) (b64_div (b64 200) (Finite 30))) = b64 (43 / 100)"
  "b64 (43 / 100) \<noteq> b64 (44 / 100)"
  by code_simp+

text \<open>
  C4. For every active goal the tracker computes amount_remaining = target - current
  (not clamped), days_remaining = target_date - evaluation date (negative when overdue),
  and monthly_savings_needed = amount_remaining / (days_remaining / 30) when
  days_remaining > 0 and 0 otherwise. What the code guarantees: pct_complete is current / target * 100
  rounded to two decimals, and it is NULL, not 0, when the target is 0; the monthly
  amount is the binary64 quotient of the floats of amount_remaining and of
  days_remaining / 30, rounded to two decimals in binary64. The rows of the result are
  exactly the rows of the active goals.
\<close>

theorem goal_tracker_rows:
  "set (extract_financial_goals d today)
     = goal_query_row today ` {g \<in> set (financial_goals d). g_is_active g}
   \<and> gr_amount_remaining (goal_query_row today g) = g_target_amount g - g_current_amount g
   \<and> gr_pct_complete (goal_query_row today g) =
       (if g_target_amount g = 0 then None
        else Some (pg_round 2 (g_current_amount g / g_target_amount g * 100)))
   \<and> gr_days_remaining (goal_query_row today g) = g_target_date g - today
   \<and> gr_monthly_savings_needed (goal_query_row today g) =
       (if 0 < g_target_date g - today
        then b64_round 2
               (b64_div (b64 (g_target_amount g - g_current_amount g))
                  (b64_div (b64 (of_int (g_target_date g - today))) (Finite 30)))
        else Finite 0)"
proof -
  have rows: "set (extract_financial_goals d today)
     = goal_query_row today ` {g \<in> set (financial_goals d). g_is_active g}"
    by (auto simp: extract_financial_goals_def)
  have fields: "gr_amount_remaining (goal_query_row today g)
        = g_target_amount g - g_current_amount g"
    "gr_pct_complete (goal_query_row today g) =
       (if g_target_amount g = 0 then None
        else Some (pg_round 2 (g_current_amount g / g_target_amount g * 100)))"
    "gr_days_remaining (goal_query_row today g) = g_target_date g - today"
    by (simp_all add: goal_query_row_def Let_def nullif0_def)
  have monthly: "gr_monthly_savings_needed (goal_query_row today g) =
       (if 0 < g_target_date g - today
        then b64_round 2
               (b64_div (b64 (g_target_amount g - g_current_amount g))
                  (b64_div (b64 (of_int (g_target_date g - today))) (Finite 30)))
        else Finite 0)"
    by (simp add: goal_query_row_def Let_def np_where_def b64_round_0)
  from rows fields monthly show ?thesis by blast
qed

theorem goal_tracker_rows_witness:
  "extract_financial_goals ledger 19770 = [goal_query_row 19770 emergency_fund]
   \<and> gr_amount_remaining (goal_query_row 19770 emergency_fund) = 6500
   \<and> gr_pct_complete (goal_query_row 19770 emergency_fund) = Some (5667 / 100)
   \<and> gr_days_remaining (goal_query_row 19770 emergency_fund) = 200
   \<and> gr_monthly_savings_needed (goal_query_row 19770 emergency_fund) = Finite 975
   \<and> gr_monthly_savings_needed (goal_query_row 19770 cents_goal) = b64 (43 / 100)"
proof -
  have "extract_financial_goals ledger 19770 = [goal_query_row 19770 emergency_fund]"
    by (simp add: extract_financial_goals_def ledger_def emergency_fund_def)
  moreover have "gr_amount_remaining (goal_query_row 19770 emergency_fund) = 6500
   \<and> gr_days_remaining (goal_query_row 19770 emergency_fund) = 200"
    using goal_tracker_rows[of ledger 19770 emergency_fund]
    by (simp add: emergency_fund_def)
  moreover have "gr_monthly_savings_needed (goal_query_row 19770 cents_goal) = b64 (43 / 100)"
    using goal_tracker_rows[of ledger 19770 cents_goal] cents_goal_rounding(1)
    by (simp add: cents_goal_def)
  ultimately show ?thesis by (simp add: ledger_goal_row)
qed

text \<open>
  A goal with target 0 has a NULL pct_complete, not 0: \<^verbatim>\<open>NULLIF(target_amount, 0)\<close> makes
  the quotient NULL.
\<close>

theorem goal_zero_target_pct_null:
  "map gr_target_amount (extract_financial_goals zero_target_ledger 19770) = [0]
   \<and> map gr_pct_complete (extract_financial_goals zero_target_ledger 19770) = [None]"
  by code_simp

section \<open>Properties of the export\<close>


section \<open>Properties of the merchant profiler\<close>









section \<open>Joins and groups\<close>

lemma left_join_if:
  "left_join on xs ys =
     concat (map (\<lambda>x. if filter (on x) ys = [] then [(x, None)]
                        else map (\<lambda>y. (x, Some y)) (filter (on x) ys)) xs)"
proof -
  have "(case filter (on x) ys of [] \<Rightarrow> [(x, None)]
         | y # rest \<Rightarrow> map (\<lambda>y'. (x, Some y')) (y # rest))
      = (if filter (on x) ys = [] then [(x, None)]
         else map (\<lambda>y. (x, Some y)) (filter (on x) ys))" for x
    by (simp split: list.split)
  then show ?thesis by (simp add: left_join_def)
qed

lemma left_join_Some_iff:
  "((x, Some y) \<in> set (left_join on xs ys)) = (x \<in> set xs \<and> y \<in> set ys \<and> on x y)"
  by (auto simp: left_join_if filter_empty_conv split: if_splits)

lemma fst_left_join_block:
  "fst ` set (if zs = [] then [(x, None)] else map (\<lambda>y. (x, Some y)) zs) = {x}"
  by (cases zs) (auto simp: image_image)

lemma fst_set_left_join: "fst ` set (left_join on xs ys) = set xs"
proof (induction xs)
  case Nil
  show ?case by (simp add: left_join_def)
next
  case (Cons x xs)
  have "fst ` set (left_join on (x # xs) ys)
      = fst ` set (if filter (on x) ys = [] then [(x, None)]
                   else map (\<lambda>y. (x, Some y)) (filter (on x) ys))
        \<union> fst ` set (left_join on xs ys)"
    by (simp only: left_join_if list.map concat.simps set_append image_Un)
  then show ?case unfolding fst_left_join_block Cons.IH by simp
qed

lemma filter_left_join_fst:
  "filter (\<lambda>(x, y). P x) (left_join on xs ys) = left_join on (filter P xs) ys"
  by (induction xs) (auto simp: left_join_if filter_map comp_def)

lemma left_join_filter_right:
  assumes "\<And>x y. x \<in> set xs \<Longrightarrow> y \<in> set ys \<Longrightarrow> on x y \<Longrightarrow> Q y"
  shows "left_join on xs (filter Q ys) = left_join on xs ys"
proof -
  have "filter (on x) (filter Q ys) = filter (on x) ys" if "x \<in> set xs" for x
    using assms[OF that] by (auto intro: filter_cong)
  then show ?thesis
    unfolding left_join_if by (intro arg_cong[where f = concat] map_cong) simp_all
qed

lemma set_group_by:
  "set (group_by key rows) = (\<lambda>k. (k, filter (\<lambda>r. key r = k) rows)) ` key ` set rows"
  by (simp add: group_by_def)

lemma filter_eq_single: "distinct xs \<Longrightarrow> x \<in> set xs \<Longrightarrow> filter (\<lambda>y. y = x) xs = [x]"
  by (induction xs) (auto simp: filter_empty_conv)

lemma filter_key_single:
  assumes "distinct (map f xs)" and "x \<in> set xs"
  shows "filter (\<lambda>y. f y = f x) xs = [x]"
proof -
  have "inj_on f (set xs)" and "distinct xs"
    using assms(1) by (simp_all add: distinct_map)
  then have "filter (\<lambda>y. f y = f x) xs = filter (\<lambda>y. y = x) xs"
    using assms(2) by (intro filter_cong) (auto dest: inj_onD)
  then show ?thesis using \<open>distinct xs\<close> assms(2) by (simp add: filter_eq_single)
qed

section \<open>Rows of the budget evaluators\<close>

lemma current_month_spending_group:
  fixes d today c
  defines "M \<equiv> filter (\<lambda>t. t_category_id t = c_category_id c
                  \<and> date_trunc_month (t_transaction_date t) = date_trunc_month today
                  \<and> t_transaction_type t = ''debit'') (transactions d)"
  defines "g \<equiv> (if M = [] then [(c, None)] else map (\<lambda>t. (c, Some t)) M)"
  shows "coalesce (sql_sum (map (\<lambda>(c, t). map_option t_amount t) g)) 0
           = category_debit_total d today (c_category_id c)"
    and "length (List.map_filter (\<lambda>(c, t). map_option t_transaction_id t) g) = length M"
proof -
  have "map (\<lambda>(c, t). map_option t_amount t) (map (\<lambda>t. (c, Some t)) M)
          = map (\<lambda>t. Some (t_amount t)) M"
    by simp
  then have "M \<noteq> [] \<Longrightarrow> sql_sum (map (\<lambda>(c, t). map_option t_amount t) g)
                 = Some (sum_list (map t_amount M))"
    unfolding g_def by (simp add: sql_sum_Some del: map_map)
  moreover have "M = [] \<Longrightarrow> sql_sum (map (\<lambda>(c, t). map_option t_amount t) g) = None"
    unfolding g_def by (simp add: sql_sum_def List.map_filter_simps)
  ultimately show "coalesce (sql_sum (map (\<lambda>(c, t). map_option t_amount t) g)) 0
           = category_debit_total d today (c_category_id c)"
    unfolding category_debit_total_def M_def[symmetric]
    by (cases "M = []") (simp_all add: coalesce_def)
  show "length (List.map_filter (\<lambda>(c, t). map_option t_transaction_id t) g) = length M"
    unfolding g_def by (simp add: List.map_filter_def comp_def)
qed

lemma set_current_month_spending:
  assumes "category_key d"
  shows "set (current_month_spending d today)
           = spending_of d today ` {c \<in> set (categories d). has_parent c}"
proof -
  let ?on = "\<lambda>c t. c_category_id c = t_category_id t
                 \<and> date_trunc_month (t_transaction_date t) = date_trunc_month today
                 \<and> t_transaction_type t = ''debit''"
  let ?cs = "filter (\<lambda>c. c_parent_category_id c \<noteq> None) (categories d)"
  let ?L = "left_join ?on ?cs (transactions d)"
  let ?key = "\<lambda>(c, t). (c_category_id c, c_category_name c)"
  let ?row = "\<lambda>((cid, cname), g).
          \<lparr>cms_category_id = cid, cms_category_name = cname,
           cms_actual_spend = coalesce (sql_sum (map (\<lambda>(c, t). map_option t_amount t) g)) 0,
           cms_num_transactions =
             length (List.map_filter (\<lambda>(c, t). map_option t_transaction_id t) g)\<rparr>"
  have dist: "distinct (map c_category_id ?cs)"
    using assms by (simp add: category_key_def distinct_map_filter)
  have keys: "?key ` set ?L = (\<lambda>c. (c_category_id c, c_category_name c)) ` set ?cs"
  proof -
    have "?key ` set ?L = (\<lambda>c. (c_category_id c, c_category_name c)) ` fst ` set ?L"
      by (force simp: image_image case_prod_unfold)
    then show ?thesis by (simp only: fst_set_left_join)
  qed
  have grp: "?row ((c_category_id c, c_category_name c),
               filter (\<lambda>r. ?key r = (c_category_id c, c_category_name c)) ?L)
             = spending_of d today c" if c: "c \<in> set ?cs" for c
  proof -
    let ?M = "filter (\<lambda>t. t_category_id t = c_category_id c
                  \<and> date_trunc_month (t_transaction_date t) = date_trunc_month today
                  \<and> t_transaction_type t = ''debit'') (transactions d)"
    have "filter (\<lambda>c'. (c_category_id c', c_category_name c')
                      = (c_category_id c, c_category_name c)) ?cs
          = filter (\<lambda>c'. c_category_id c' = c_category_id c) ?cs"
      using dist c by (intro filter_cong) (auto simp: distinct_map dest: inj_onD)
    also have "\<dots> = [c]" using dist c by (rule filter_key_single)
    finally have one: "filter (\<lambda>c'. (c_category_id c', c_category_name c')
                      = (c_category_id c, c_category_name c)) ?cs = [c]" .
    have "filter (\<lambda>r. ?key r = (c_category_id c, c_category_name c)) ?L
        = filter (\<lambda>(c', t). (c_category_id c', c_category_name c')
                      = (c_category_id c, c_category_name c)) ?L"
      by (intro filter_cong) auto
    also have "\<dots> = left_join ?on [c] (transactions d)"
      unfolding filter_left_join_fst one ..
    finally have f1: "filter (\<lambda>r. ?key r = (c_category_id c, c_category_name c)) ?L
        = left_join ?on [c] (transactions d)" .
    have "filter (?on c) (transactions d) = ?M"
      by (intro filter_cong) auto
    then have f2: "left_join ?on [c] (transactions d)
        = (if ?M = [] then [(c, None)] else map (\<lambda>t. (c, Some t)) ?M)"
      by (simp add: left_join_if)
    show ?thesis
      unfolding f1 f2 spending_of_def
      by (simp only: prod.case
            current_month_spending_group[where d = d and today = today and c = c])
  qed
  have "set (current_month_spending d today) = ?row ` set (group_by ?key ?L)"
    by (simp add: current_month_spending_def)
  also have "\<dots> = (\<lambda>c. ?row ((c_category_id c, c_category_name c),
               filter (\<lambda>r. ?key r = (c_category_id c, c_category_name c)) ?L)) ` set ?cs"
    unfolding set_group_by keys by (simp add: image_image)
  also have "\<dots> = spending_of d today ` set ?cs"
    using grp by (intro image_cong) simp_all
  finally show ?thesis by (simp add: has_parent_def)
qed

lemma get_budget_performance_row:
  assumes "s \<in> set (current_month_spending d today)" and "b \<in> set (budgets d)"
    and "cms_category_id s = b_category_id b" and "b_is_active b"
  shows "\<lparr>bp_category_name = cms_category_name s, bp_budget = b_budget_amount b,
          bp_actual_spend = cms_actual_spend s,
          bp_variance = b_budget_amount b - cms_actual_spend s,
          bp_pct_used = (if 0 < b_budget_amount b
                         then pg_round 1 (cms_actual_spend s / b_budget_amount b * 100)
                         else 0)\<rparr>
         \<in> set (get_budget_performance d today)"
proof -
  have "(s, Some b) \<in> set (left_join (\<lambda>s b. cms_category_id s = b_category_id b \<and> b_is_active b)
            (current_month_spending d today) (budgets d))"
    using assms by (simp add: left_join_Some_iff)
  then show ?thesis
    unfolding get_budget_performance_def
    by (force simp: coalesce_def intro!: image_eqI[where x = "(s, Some b)"])
qed

lemma get_budget_performance_origin:
  assumes "r \<in> set (get_budget_performance d today)"
  shows "\<exists>s \<in> set (current_month_spending d today).
           bp_category_name r = cms_category_name s \<and> bp_actual_spend r = cms_actual_spend s"
proof -
  from assms obtain s y where
    sy: "(s, y) \<in> set (left_join (\<lambda>s b. cms_category_id s = b_category_id b \<and> b_is_active b)
            (current_month_spending d today) (budgets d))"
    and r: "bp_category_name r = cms_category_name s" "bp_actual_spend r = cms_actual_spend s"
    unfolding get_budget_performance_def by auto
  from sy have "s \<in> fst ` set (left_join (\<lambda>s b. cms_category_id s = b_category_id b \<and> b_is_active b)
            (current_month_spending d today) (budgets d))"
    by force
  then have "s \<in> set (current_month_spending d today)"
    by (simp only: fst_set_left_join)
  with r show ?thesis by blast
qed

lemma extract_budget_performance_row:
  assumes "s \<in> set (current_month_spending d today)" and "b \<in> set (budgets d)"
    and "b_category_id b = cms_category_id s" and "b_is_active b"
    and "b_budget_period b = ''monthly''"
  shows "\<lparr>eb_category_name = cms_category_name s, eb_budget_amount = b_budget_amount b,
          eb_actual_spend = cms_actual_spend s,
          eb_variance = b_budget_amount b - cms_actual_spend s,
          eb_pct_used = (if b_budget_amount b = 0 then None
                         else Some (pg_round 1 (cms_actual_spend s / b_budget_amount b * 100))),
          eb_num_transactions = cms_num_transactions s\<rparr>
         \<in> set (extract_budget_performance d today)"
  using assms unfolding extract_budget_performance_def
  by (force simp: nullif0_def)

lemma extract_budget_performance_origin:
  assumes "r \<in> set (extract_budget_performance d today)"
  shows "\<exists>s \<in> set (current_month_spending d today).
           eb_category_name r = cms_category_name s \<and> eb_actual_spend r = cms_actual_spend s"
  using assms unfolding extract_budget_performance_def by (auto split: if_splits)

lemma current_month_spending_child_categories:
  "current_month_spending (d\<lparr>categories := filter has_parent (categories d)\<rparr>) today
     = current_month_spending d today"
  by (simp add: current_month_spending_def has_parent_def)

lemma current_month_spending_child_transactions:
  assumes "category_key d" and "categories d' = categories d"
    and "transactions d' =
           filter (\<lambda>t. t_category_id t
                        \<notin> c_category_id ` {c \<in> set (categories d). \<not> has_parent c})
             (transactions d)"
  shows "current_month_spending d' today = current_month_spending d today"
proof -
  let ?on = "\<lambda>c t. c_category_id c = t_category_id t
                 \<and> date_trunc_month (t_transaction_date t) = date_trunc_month today
                 \<and> t_transaction_type t = ''debit''"
  let ?cs = "filter (\<lambda>c. c_parent_category_id c \<noteq> None) (categories d)"
  let ?Q = "\<lambda>t. t_category_id t
                 \<notin> c_category_id ` {c \<in> set (categories d). \<not> has_parent c}"
  have inj: "inj_on c_category_id (set (categories d))"
    using assms(1) by (simp add: category_key_def distinct_map)
  have q: "?Q t" if "c \<in> set ?cs" and "?on c t" for c t
  proof
    assume "t_category_id t \<in> c_category_id ` {c \<in> set (categories d). \<not> has_parent c}"
    then obtain c' where c': "c' \<in> set (categories d)" "\<not> has_parent c'"
      "c_category_id c' = t_category_id t" by auto
    from that have "c \<in> set (categories d)" "has_parent c"
      "c_category_id c' = c_category_id c"
      using c'(3) by (simp_all add: has_parent_def)
    with inj c'(1) have "c' = c" by (auto dest: inj_onD)
    with c'(2) \<open>has_parent c\<close> show False by simp
  qed
  have lj: "left_join ?on ?cs (filter ?Q (transactions d)) = left_join ?on ?cs (transactions d)"
    by (rule left_join_filter_right) (rule q)
  show ?thesis
    unfolding current_month_spending_def assms(2,3) lj ..
qed

text \<open>
  C2. For a category with an active monthly budget the budget evaluator has a row with
  actual spend = the sum of the category's debits of the month (0 without any), variance =
  budget - actual and pct_used = actual / budget * 100. What the code guarantees: this holds for the
  categories that have a parent category; the report's evaluator takes any active budget,
  the ETL evaluator the monthly ones; pct_used is rounded to one decimal; and with a
  budget amount of 0 the report's evaluator gives pct_used 0, the ETL evaluator NULL.
  Neither divides by zero.
\<close>

theorem budget_performance_rows:
  assumes "category_key d" and "c \<in> set (categories d)" and "has_parent c"
    and "b \<in> set (budgets d)" and "b_category_id b = c_category_id c" and "b_is_active b"
  shows "(\<exists>r \<in> set (get_budget_performance d today).
            bp_category_name r = c_category_name c \<and> bp_budget r = b_budget_amount b
          \<and> bp_actual_spend r = category_debit_total d today (c_category_id c)
          \<and> bp_variance r = bp_budget r - bp_actual_spend r
          \<and> bp_pct_used r = (if 0 < bp_budget r
                              then pg_round 1 (bp_actual_spend r / bp_budget r * 100) else 0))
       \<and> (b_budget_period b = ''monthly'' \<longrightarrow>
           (\<exists>r \<in> set (extract_budget_performance d today).
              eb_category_name r = c_category_name c \<and> eb_budget_amount r = b_budget_amount b
            \<and> eb_actual_spend r = category_debit_total d today (c_category_id c)
            \<and> eb_variance r = eb_budget_amount r - eb_actual_spend r
            \<and> eb_pct_used r = (if eb_budget_amount r = 0 then None
                 else Some (pg_round 1 (eb_actual_spend r / eb_budget_amount r * 100)))))"
proof -
  have s: "spending_of d today c \<in> set (current_month_spending d today)"
    using assms(1-3) by (simp add: set_current_month_spending)
  have id: "cms_category_id (spending_of d today c) = b_category_id b"
    using assms(5) by (simp add: spending_of_def)
  have report: "\<exists>r \<in> set (get_budget_performance d today).
            bp_category_name r = c_category_name c \<and> bp_budget r = b_budget_amount b
          \<and> bp_actual_spend r = category_debit_total d today (c_category_id c)
          \<and> bp_variance r = bp_budget r - bp_actual_spend r
          \<and> bp_pct_used r = (if 0 < bp_budget r
                              then pg_round 1 (bp_actual_spend r / bp_budget r * 100) else 0)"
    by (rule bexI[OF _ get_budget_performance_row[OF s assms(4) id assms(6)]])
       (simp add: spending_of_def)
  have etl: "\<exists>r \<in> set (extract_budget_performance d today).
              eb_category_name r = c_category_name c \<and> eb_budget_amount r = b_budget_amount b
            \<and> eb_actual_spend r = category_debit_total d today (c_category_id c)
            \<and> eb_variance r = eb_budget_amount r - eb_actual_spend r
            \<and> eb_pct_used r = (if eb_budget_amount r = 0 then None
                 else Some (pg_round 1 (eb_actual_spend r / eb_budget_amount r * 100)))"
    if m: "b_budget_period b = ''monthly''"
    by (rule bexI[OF _ extract_budget_performance_row[OF s assms(4) id[symmetric] assms(6) m]])
       (simp add: spending_of_def)
  from report etl show ?thesis by blast
qed

theorem budget_performance_rows_witness:
  "(\<exists>r \<in> set (get_budget_performance ledger 19770).
      bp_category_name r = ''Groceries'' \<and> bp_budget r = 600 \<and> bp_actual_spend r = 650
      \<and> bp_variance r = - 50 \<and> bp_pct_used r = 1083 / 10)
   \<and> (\<exists>r \<in> set (extract_budget_performance ledger 19770).
      eb_category_name r = ''Groceries'' \<and> eb_budget_amount r = 600 \<and> eb_actual_spend r = 650
      \<and> eb_variance r = - 50 \<and> eb_pct_used r = Some (1083 / 10))"
proof -
  let ?b = "\<lparr>b_category_id = 3, b_budget_period = ''monthly'', b_budget_amount = 600,
         b_is_active = True\<rparr>"
  have k: "category_key ledger"
    by (simp add: category_key_def ledger_def salary_def food_def groceries_def
          coffee_shops_def)
  have c: "groceries \<in> set (categories ledger)" "has_parent groceries"
    by (simp_all add: ledger_def has_parent_def groceries_def)
  have b: "?b \<in> set (budgets ledger)" "b_category_id ?b = c_category_id groceries"
    "b_is_active ?b" "b_budget_period ?b = ''monthly''"
    by (simp_all add: ledger_def groceries_def)
  have t: "category_debit_total ledger 19770 (c_category_id groceries) = 650"
    by code_simp
  have p: "pg_round 1 (650 / 600 * 100) = 1083 / 10"
    by code_simp
  have n: "c_category_name groceries = ''Groceries''" "b_budget_amount ?b = 600"
    by (simp_all add: groceries_def)
  note rows = budget_performance_rows[OF k c b(1-3), of 19770]
  from rows obtain r where r: "r \<in> set (get_budget_performance ledger 19770)"
    "bp_category_name r = c_category_name groceries" "bp_budget r = b_budget_amount ?b"
    "bp_actual_spend r = category_debit_total ledger 19770 (c_category_id groceries)"
    "bp_variance r = bp_budget r - bp_actual_spend r"
    "bp_pct_used r = (if 0 < bp_budget r
                      then pg_round 1 (bp_actual_spend r / bp_budget r * 100) else 0)"
    by blast
  have "bp_pct_used r = 1083 / 10" by (simp only: r(3,4,6) t n p; simp)
  moreover have "bp_variance r = - 50" by (simp only: r(3,4,5) t n; simp)
  ultimately have report: "\<exists>r \<in> set (get_budget_performance ledger 19770).
      bp_category_name r = ''Groceries'' \<and> bp_budget r = 600 \<and> bp_actual_spend r = 650
      \<and> bp_variance r = - 50 \<and> bp_pct_used r = 1083 / 10"
    using r(1-4) unfolding t n by blast
  from rows b(4) obtain e where e: "e \<in> set (extract_budget_performance ledger 19770)"
    "eb_category_name e = c_category_name groceries" "eb_budget_amount e = b_budget_amount ?b"
    "eb_actual_spend e = category_debit_total ledger 19770 (c_category_id groceries)"
    "eb_variance e = eb_budget_amount e - eb_actual_spend e"
    "eb_pct_used e = (if eb_budget_amount e = 0 then None
                 else Some (pg_round 1 (eb_actual_spend e / eb_budget_amount e * 100)))"
    by blast
  have "eb_pct_used e = Some (1083 / 10)" by (simp only: e(3,4,6) t n p; simp)
  moreover have "eb_variance e = - 50" by (simp only: e(3,4,5) t n; simp)
  ultimately have "\<exists>r \<in> set (extract_budget_performance ledger 19770).
      eb_category_name r = ''Groceries'' \<and> eb_budget_amount r = 600 \<and> eb_actual_spend r = 650
      \<and> eb_variance r = - 50 \<and> eb_pct_used r = Some (1083 / 10)"
    using e(1-4) unfolding t n by blast
  with report show ?thesis by blast
qed

text \<open>
  With a budget of 0 on Groceries and 50 spent, the ETL evaluator has a NULL pct_used
  where the report's evaluator has 0. And on \<open>ledger\<close>, where the top-level category Food
  holds an active monthly budget, neither evaluator has a row for Food.
\<close>

theorem budget_performance_zero_budget_and_top_level:
  "map eb_actual_spend (extract_budget_performance zero_budget_ledger 19770) = [50]
   \<and> map eb_pct_used (extract_budget_performance zero_budget_ledger 19770) = [None]
   \<and> map bp_pct_used (get_budget_performance zero_budget_ledger 19770) = [0]
   \<and> map eb_category_name (extract_budget_performance ledger 19770)
       = [''Groceries'', ''Coffee Shops'']
   \<and> map bp_category_name (get_budget_performance ledger 19770)
       = [''Coffee Shops'', ''Groceries'']"
  by code_simp

text \<open>
  C10. Both budget evaluators consider only the categories that have a parent category.
  Every row of either result belongs to such a category and counts the debits booked on
  that category itself, nothing rolled up from other categories. A top-level category,
  with whatever budget, has no row: the results are the same without the top-level
  categories in the table, and the same without the transactions booked on them.
\<close>

theorem budget_rows_only_child_categories:
  assumes "category_key d"
  shows "(\<forall>r \<in> set (get_budget_performance d today). \<exists>c \<in> set (categories d).
            has_parent c \<and> bp_category_name r = c_category_name c
          \<and> bp_actual_spend r = category_debit_total d today (c_category_id c))
       \<and> (\<forall>r \<in> set (extract_budget_performance d today). \<exists>c \<in> set (categories d).
            has_parent c \<and> eb_category_name r = c_category_name c
          \<and> eb_actual_spend r = category_debit_total d today (c_category_id c))
       \<and> get_budget_performance (d\<lparr>categories := filter has_parent (categories d)\<rparr>) today
           = get_budget_performance d today
       \<and> extract_budget_performance (d\<lparr>categories := filter has_parent (categories d)\<rparr>) today
           = extract_budget_performance d today
       \<and> get_budget_performance
           (d\<lparr>transactions :=
                filter (\<lambda>t. t_category_id t
                             \<notin> c_category_id ` {c \<in> set (categories d). \<not> has_parent c})
                  (transactions d)\<rparr>) today
           = get_budget_performance d today
       \<and> extract_budget_performance
           (d\<lparr>transactions :=
                filter (\<lambda>t. t_category_id t
                             \<notin> c_category_id ` {c \<in> set (categories d). \<not> has_parent c})
                  (transactions d)\<rparr>) today
           = extract_budget_performance d today"
proof -
  note cms = set_current_month_spending[OF assms, of today]
  have r1: "\<exists>c \<in> set (categories d).
            has_parent c \<and> bp_category_name r = c_category_name c
          \<and> bp_actual_spend r = category_debit_total d today (c_category_id c)"
    if "r \<in> set (get_budget_performance d today)" for r
    using get_budget_performance_origin[OF that] unfolding cms
    by (auto simp: spending_of_def)
  have r2: "\<exists>c \<in> set (categories d).
            has_parent c \<and> eb_category_name r = c_category_name c
          \<and> eb_actual_spend r = category_debit_total d today (c_category_id c)"
    if "r \<in> set (extract_budget_performance d today)" for r
    using extract_budget_performance_origin[OF that] unfolding cms
    by (auto simp: spending_of_def)
  have c1: "get_budget_performance (d\<lparr>categories := filter has_parent (categories d)\<rparr>) today
           = get_budget_performance d today"
    unfolding get_budget_performance_def current_month_spending_child_categories by simp
  have c2: "extract_budget_performance (d\<lparr>categories := filter has_parent (categories d)\<rparr>) today
           = extract_budget_performance d today"
    unfolding extract_budget_performance_def current_month_spending_child_categories by simp
  have t: "current_month_spending
           (d\<lparr>transactions :=
                filter (\<lambda>t. t_category_id t
                             \<notin> c_category_id ` {c \<in> set (categories d). \<not> has_parent c})
                  (transactions d)\<rparr>) today
         = current_month_spending d today"
    by (rule current_month_spending_child_transactions[OF assms]) simp_all
  have t1: "get_budget_performance
           (d\<lparr>transactions :=
                filter (\<lambda>t. t_category_id t
                             \<notin> c_category_id ` {c \<in> set (categories d). \<not> has_parent c})
                  (transactions d)\<rparr>) today
           = get_budget_performance d today"
    unfolding get_budget_performance_def t by simp
  have t2: "extract_budget_performance
           (d\<lparr>transactions :=
                filter (\<lambda>t. t_category_id t
                             \<notin> c_category_id ` {c \<in> set (categories d). \<not> has_parent c})
                  (transactions d)\<rparr>) today
           = extract_budget_performance d today"
    unfolding extract_budget_performance_def t by simp
  from r1 r2 c1 c2 t1 t2 show ?thesis by blast
qed

theorem budget_rows_only_child_categories_witness:
  "food \<in> set (categories ledger) \<and> \<not> has_parent food
   \<and> ''Food'' \<notin> bp_category_name ` set (get_budget_performance ledger 19770)
   \<and> ''Food'' \<notin> eb_category_name ` set (extract_budget_performance ledger 19770)"
proof -
  have k: "category_key ledger"
    by (simp add: category_key_def ledger_def salary_def food_def groceries_def
          coffee_shops_def)
  have n: "c_category_name c \<noteq> ''Food''" if "c \<in> set (categories ledger)" "has_parent c" for c
    using that
    by (auto simp: ledger_def has_parent_def salary_def food_def groceries_def
          coffee_shops_def)
  have f: "food \<in> set (categories ledger)" "\<not> has_parent food"
    by (simp_all add: ledger_def has_parent_def food_def)
  note only = budget_rows_only_child_categories[OF k, of 19770]
  have nb: "''Food'' \<notin> bp_category_name ` set (get_budget_performance ledger 19770)"
  proof
    assume "''Food'' \<in> bp_category_name ` set (get_budget_performance ledger 19770)"
    then obtain r where r: "r \<in> set (get_budget_performance ledger 19770)"
      "bp_category_name r = ''Food''" by auto
    from only r(1) obtain c where "c \<in> set (categories ledger)" "has_parent c"
      "bp_category_name r = c_category_name c" by blast
    with n r(2) show False by simp
  qed
  have ne: "''Food'' \<notin> eb_category_name ` set (extract_budget_performance ledger 19770)"
  proof
    assume "''Food'' \<in> eb_category_name ` set (extract_budget_performance ledger 19770)"
    then obtain r where r: "r \<in> set (extract_budget_performance ledger 19770)"
      "eb_category_name r = ''Food''" by auto
    from only r(1) obtain c where "c \<in> set (categories ledger)" "has_parent c"
      "eb_category_name r = c_category_name c" by blast
    with n r(2) show False by simp
  qed
  from f nb ne show ?thesis by blast
qed

section \<open>Sums over groups\<close>

lemma sum_list_mset_cong:
  fixes f :: "'a \<Rightarrow> rat"
  assumes "mset xs = mset ys"
  shows "sum_list (map f xs) = sum_list (map f ys)"
proof -
  have "sum_list (map f zs) = sum_mset (image_mset f (mset zs))" for zs
    by (simp add: sum_mset_sum_list[symmetric] del: sum_mset_sum_list)
  then show ?thesis using assms by simp
qed

lemma sum_list_filter_sort_key:
  fixes f :: "'a \<Rightarrow> rat"
  shows "sum_list (map f (filter P (sort_key k xs))) = sum_list (map f (filter P xs))"
  by (rule sum_list_mset_cong) simp

lemma sum_list_filter_split:
  fixes f :: "'a \<Rightarrow> rat"
  shows "sum_list (map f (filter P xs))
       = sum_list (map f (filter (\<lambda>x. P x \<and> Q x) xs))
         + sum_list (map f (filter (\<lambda>x. P x \<and> \<not> Q x) xs))"
  by (induction xs) simp_all

lemma sum_list_if_filter:
  fixes f :: "'a \<Rightarrow> rat"
  shows "sum_list (map (\<lambda>x. if P x then f x else 0) xs) = sum_list (map f (filter P xs))"
  by (induction xs) simp_all

lemma sum_list_no_key:
  fixes c :: rat
  shows "a \<notin> set ks \<Longrightarrow> sum_list (map (\<lambda>k. if a = k then c else 0) ks) = 0"
  by (induction ks) auto

lemma sum_list_single_key:
  fixes c :: rat
  assumes "distinct ks" and "a \<in> set ks"
  shows "sum_list (map (\<lambda>k. if a = k then c else 0) ks) = c"
  using assms by (induction ks) (auto simp: sum_list_no_key)

lemma sum_list_groups:
  fixes f :: "'r \<Rightarrow> rat"
  assumes "distinct ks" and "key ` set rows \<subseteq> set ks"
  shows "sum_list (map (\<lambda>k. sum_list (map f (filter (\<lambda>r. key r = k) rows))) ks)
       = sum_list (map f rows)"
  using assms(2)
proof (induction rows)
  case Nil
  show ?case by simp
next
  case (Cons r rows)
  have "sum_list (map (\<lambda>k. sum_list (map f (filter (\<lambda>x. key x = k) (r # rows)))) ks)
      = sum_list (map (\<lambda>k. (if key r = k then f r else 0)
                         + sum_list (map f (filter (\<lambda>x. key x = k) rows))) ks)"
    by (intro arg_cong[where f = sum_list] map_cong) simp_all
  also have "\<dots> = sum_list (map (\<lambda>k. if key r = k then f r else 0) ks)
                 + sum_list (map (\<lambda>k. sum_list (map f (filter (\<lambda>x. key x = k) rows))) ks)"
    by (simp add: sum_list_addf)
  also have "\<dots> = f r + sum_list (map f rows)"
    using Cons assms(1) by (simp add: sum_list_single_key)
  finally show ?case by simp
qed

lemma sum_list_group_by:
  fixes f :: "'r \<Rightarrow> rat"
  shows "sum_list (map (\<lambda>(k, g). sum_list (map f g)) (group_by key rows))
       = sum_list (map f rows)"
proof -
  have "sum_list (map (\<lambda>(k, g). sum_list (map f g)) (group_by key rows))
      = sum_list (map (\<lambda>k. sum_list (map f (filter (\<lambda>r. key r = k) rows)))
                   (remdups (map key rows)))"
    by (simp add: group_by_def comp_def)
  also have "\<dots> = sum_list (map f rows)"
    by (rule sum_list_groups) simp_all
  finally show ?thesis .
qed

lemma filter_group_by:
  "filter (\<lambda>(k, g). P k) (group_by key rows) = group_by key (filter (\<lambda>r. P (key r)) rows)"
proof -
  have ks: "remdups (map key (filter (\<lambda>r. P (key r)) rows))
          = filter P (remdups (map key rows))"
    by (induction rows) auto
  have "filter (\<lambda>(k, g). P k) (group_by key rows)
      = map (\<lambda>k. (k, filter (\<lambda>r. key r = k) rows)) (filter P (remdups (map key rows)))"
    by (simp add: group_by_def filter_map comp_def)
  also have "\<dots> = map (\<lambda>k. (k, filter (\<lambda>r. key r = k) (filter (\<lambda>r. P (key r)) rows)))
                   (filter P (remdups (map key rows)))"
    by (intro map_cong refl) (auto intro: filter_cong)
  finally show ?thesis by (simp add: group_by_def ks)
qed

lemma sum_list_filter_group_by:
  fixes f :: "'r \<Rightarrow> rat"
  shows "sum_list (map (\<lambda>(k, g). sum_list (map f g)) (filter (\<lambda>(k, g). P k) (group_by key rows)))
       = sum_list (map f (filter (\<lambda>r. P (key r)) rows))"
  by (simp only: filter_group_by sum_list_group_by)

lemma length_filter_key_le1:
  assumes "distinct (map f ys)"
  shows "length (filter (\<lambda>y. f y = a) ys) \<le> 1"
  using assms
proof (induction ys)
  case Nil
  show ?case by simp
next
  case (Cons y ys)
  show ?case
  proof (cases "f y = a")
    case True
    from Cons.prems have "f y \<notin> f ` set ys" by simp
    with True have "\<forall>x \<in> set ys. f x \<noteq> a" by blast
    then have "filter (\<lambda>y. f y = a) ys = []"
      by (simp add: filter_empty_conv)
    with True show ?thesis by simp
  next
    case False
    with Cons show ?thesis by simp
  qed
qed

lemma map_fst_left_join:
  assumes "\<And>x. x \<in> set xs \<Longrightarrow> length (filter (on x) ys) \<le> 1"
  shows "map fst (left_join on xs ys) = xs"
  using assms
proof (induction xs)
  case Nil
  show ?case by (simp add: left_join_def)
next
  case (Cons x xs)
  have "length (filter (on x) ys) \<le> 1" using Cons.prems by simp
  then have "map fst (if filter (on x) ys = [] then [(x, None)]
                      else map (\<lambda>y. (x, Some y)) (filter (on x) ys)) = [x]"
    by (cases "filter (on x) ys") (auto simp: comp_def)
  moreover have "map fst (left_join on xs ys) = xs"
    using Cons by simp
  moreover have "left_join on (x # xs) ys
       = (if filter (on x) ys = [] then [(x, None)]
          else map (\<lambda>y. (x, Some y)) (filter (on x) ys)) @ left_join on xs ys"
    by (simp only: left_join_if list.map concat.simps)
  ultimately show ?case by (simp only: map_append append.simps)
qed

section \<open>Roll-up of the category spending\<close>

lemma category_of_joined_row:
  "(t, c) \<in> set (transactions_join_categories d) \<Longrightarrow> c \<in> set (categories d)"
  by (auto simp: transactions_join_categories_def split: if_splits)

lemma expense_name_iff:
  assumes "category_name_key d" and "c \<in> set (categories d)"
  shows "(c_category_name c
            \<in> set (map c_category_name
                     (filter (\<lambda>c. c_category_type c = ''expense'') (categories d))))
       = (c_category_type c = ''expense'')"
proof -
  have inj: "inj_on c_category_name (set (categories d))"
    using assms(1) by (simp add: category_name_key_def distinct_map)
  show ?thesis
  proof
    assume "c_category_name c
            \<in> set (map c_category_name
                     (filter (\<lambda>c. c_category_type c = ''expense'') (categories d)))"
    then obtain c' where c': "c' \<in> set (categories d)" "c_category_type c' = ''expense''"
      "c_category_name c' = c_category_name c" by auto
    with inj assms(2) have "c' = c" by (auto dest: inj_onD)
    with c'(2) show "c_category_type c = ''expense''" by simp
  next
    assume "c_category_type c = ''expense''"
    with assms(2) show "c_category_name c
            \<in> set (map c_category_name
                     (filter (\<lambda>c. c_category_type c = ''expense'') (categories d)))"
      by auto
  qed
qed

lemma parent_join_rows:
  assumes "category_key d"
  shows "map fst (left_join (\<lambda>(t, c) p. c_parent_category_id c = Some (c_category_id p))
                    (transactions_join_categories d) (categories d))
       = transactions_join_categories d"
proof (rule map_fst_left_join)
  fix x assume "x \<in> set (transactions_join_categories d)"
  obtain t c where x: "x = (t, c)" by (cases x)
  have dist: "distinct (map c_category_id (categories d))"
    using assms by (simp add: category_key_def)
  show "length (filter ((\<lambda>(t, c) p. c_parent_category_id c = Some (c_category_id p)) x)
                  (categories d)) \<le> 1"
  proof (cases "c_parent_category_id c")
    case None
    then show ?thesis by (simp add: x)
  next
    case (Some i)
    have "filter (\<lambda>p. c_parent_category_id c = Some (c_category_id p)) (categories d)
        = filter (\<lambda>p. c_category_id p = i) (categories d)"
      using Some by (intro filter_cong) auto
    then show ?thesis
      using length_filter_key_le1[OF dist, of i] by (simp add: x)
  qed
qed

lemma category_rollup_groups:
  "category_rollup d today =
     sum_list (map (\<lambda>((t, c), p). t_amount t)
       (filter (\<lambda>r. (case (case r of ((t, c), p) \<Rightarrow>
                              (date_trunc_month (t_transaction_date t), c_category_name c,
                               map_option c_category_name p)) of
                       (m, cname, pname) \<Rightarrow> m = date_trunc_month today
                         \<and> cname \<in> set (map c_category_name
                              (filter (\<lambda>c. c_category_type c = ''expense'') (categories d)))))
         (category_spending_rows d)))"
proof -
  let ?ROW = "\<lambda>((m, cname, pname), g).
             \<lparr>cs_month = m, cs_category_name = cname, cs_parent_category = pname,
              cs_total_spend = sum_list (map (\<lambda>((t, c), p). t_amount t) g),
              cs_transaction_count = length g,
              cs_avg_transaction =
                sum_list (map (\<lambda>((t, c), p). t_amount t) g) / of_nat (length g)\<rparr>"
  let ?EN = "set (map c_category_name
                   (filter (\<lambda>c. c_category_type c = ''expense'') (categories d)))"
  let ?P = "\<lambda>r. cs_month r = date_trunc_month today \<and> cs_category_name r \<in> ?EN"
  let ?PK = "\<lambda>(m, cname, pname). m = date_trunc_month today \<and> cname \<in> ?EN"
  have gs: "map cs_total_spend (filter ?P (map ?ROW gs))
          = map (\<lambda>(k, g). sum_list (map (\<lambda>((t, c), p). t_amount t) g))
              (filter (\<lambda>(k, g). ?PK k) gs)" for gs :: "(((int \<times> int) \<times> string \<times> string option)
                 \<times> ((transaction \<times> category) \<times> category option) list) list"
    by (induction gs) auto
  show ?thesis
    unfolding category_rollup_def extract_category_spending_def sum_list_filter_sort_key
    by (simp only: gs sum_list_filter_group_by; simp only: case_prod_unfold)
qed

text \<open>
  C6. For every transaction set, the sum over the expense categories of the per-category
  debit totals of the category spending equals the expense total of the monthly summary.
  What the code guarantees: the category spending has no rows for categories without a parent, so, for
  the current month and with category ids and category names unique, the expense total of
  the summary (NULL read as 0) is that sum plus the debits booked directly on top-level
  expense categories; the two agree whenever every debit on an expense category is booked
  on a category that has a parent.
\<close>

theorem category_rollup_plus_top_level:
  assumes "category_key d" and "category_name_key d"
  shows "coalesce (expenses (get_monthly_summary d today)) 0
           = category_rollup d today + top_level_expense_debits d today
       \<and> ((\<forall>(t, c) \<in> set (current_month_rows d today).
              c_category_type c = ''expense'' \<and> t_transaction_type t = ''debit''
              \<longrightarrow> has_parent c)
           \<longrightarrow> coalesce (expenses (get_monthly_summary d today)) 0 = category_rollup d today)"
proof -
  let ?J = "transactions_join_categories d"
  let ?R = "current_month_rows d today"
  let ?EN = "set (map c_category_name
                   (filter (\<lambda>c. c_category_type c = ''expense'') (categories d)))"
  define amt where "amt = (\<lambda>x :: transaction \<times> category. t_amount (fst x))"
  define E where "E = (\<lambda>x :: transaction \<times> category.
      c_category_type (snd x) = ''expense'' \<and> t_transaction_type (fst x) = ''debit'')"
  define HP where "HP = (\<lambda>x :: transaction \<times> category. c_parent_category_id (snd x) \<noteq> None)"
  define Q where "Q = (\<lambda>x :: transaction \<times> category.
      (date_trunc_month (t_transaction_date (fst x)) = date_trunc_month today
        \<and> c_category_name (snd x) \<in> ?EN)
      \<and> t_transaction_type (fst x) = ''debit'' \<and> c_parent_category_id (snd x) \<noteq> None)"
  have "expenses (get_monthly_summary d today)
          = sql_sum (map (\<lambda>x. Some (if E x then amt x else 0)) ?R)"
    unfolding E_def amt_def
    by (simp add: get_monthly_summary_def Let_def case_prod_unfold)
  then have A: "coalesce (expenses (get_monthly_summary d today)) 0
          = sum_list (map amt (filter E ?R))"
    by (simp add: sql_sum_Some coalesce_def sum_list_if_filter)
  have T: "top_level_expense_debits d today
          = sum_list (map amt (filter (\<lambda>x. E x \<and> \<not> HP x) ?R))"
    unfolding top_level_expense_debits_def E_def HP_def amt_def
    by (simp add: case_prod_unfold conj_assoc)
  have "category_rollup d today
      = sum_list (map (\<lambda>r. amt (fst r)) (filter (\<lambda>r. Q (fst r))
          (left_join (\<lambda>(t, c) p. c_parent_category_id c = Some (c_category_id p))
             ?J (categories d))))"
    unfolding category_rollup_groups category_spending_rows_def filter_filter
    by (intro arg_cong[where f = sum_list] arg_cong2[where f = map] filter_cong)
       (auto simp: amt_def Q_def)
  also have "\<dots> = sum_list (map amt (filter Q
          (map fst (left_join (\<lambda>(t, c) p. c_parent_category_id c = Some (c_category_id p))
             ?J (categories d)))))"
    by (simp add: filter_map comp_def)
  also have "\<dots> = sum_list (map amt (filter Q ?J))"
    by (simp only: parent_join_rows[OF assms(1)])
  also have "filter Q ?J = filter (\<lambda>x. E x \<and> HP x) ?R"
  proof -
    have "Q x = ((case x of (t, c) \<Rightarrow>
                    date_trunc_month (t_transaction_date t) = date_trunc_month today)
                 \<and> E x \<and> HP x)" if "x \<in> set ?J" for x
    proof -
      obtain t c where x: "x = (t, c)" by (cases x)
      with that have "c \<in> set (categories d)" by (auto dest: category_of_joined_row)
      from expense_name_iff[OF assms(2) this] show ?thesis
        by (auto simp: Q_def E_def HP_def x)
    qed
    then have "filter Q ?J
       = filter (\<lambda>x. (case x of (t, c) \<Rightarrow>
                    date_trunc_month (t_transaction_date t) = date_trunc_month today)
                 \<and> E x \<and> HP x) ?J"
      by (intro filter_cong) simp_all
    then show ?thesis by (simp add: current_month_rows_def conj_commute)
  qed
  finally have B: "category_rollup d today
      = sum_list (map amt (filter (\<lambda>x. E x \<and> HP x) ?R))" .
  have total: "coalesce (expenses (get_monthly_summary d today)) 0
           = category_rollup d today + top_level_expense_debits d today"
    unfolding A B T by (rule sum_list_filter_split)
  have "top_level_expense_debits d today = 0"
    if "\<forall>(t, c) \<in> set ?R.
              c_category_type c = ''expense'' \<and> t_transaction_type t = ''debit''
              \<longrightarrow> has_parent c"
  proof -
    have "filter (\<lambda>x. E x \<and> \<not> HP x) ?R = []"
      using that by (auto simp: filter_empty_conv E_def HP_def has_parent_def)
    then show ?thesis unfolding T by simp
  qed
  with total show ?thesis by simp
qed

lemma ledger_keys: "category_key ledger" "category_name_key ledger"
  by (simp_all add: category_key_def category_name_key_def ledger_def salary_def food_def
        groceries_def coffee_shops_def)

lemma ledger_rollup:
  "category_rollup ledger 19770 = 800" "top_level_expense_debits ledger 19770 = 3400"
  by code_simp+

theorem category_rollup_plus_top_level_witness:
  "category_key ledger \<and> category_name_key ledger
   \<and> expenses (get_monthly_summary ledger 19770) = Some 4200
   \<and> category_rollup ledger 19770 = 800
   \<and> top_level_expense_debits ledger 19770 = 3400
   \<and> coalesce (expenses (get_monthly_summary ledger 19770)) 0
       = category_rollup ledger 19770 + top_level_expense_debits ledger 19770"
  using category_rollup_plus_top_level[OF ledger_keys, of 19770] ledger_keys ledger_rollup
  by (simp add: ledger_summary)

text \<open>
  On \<open>ledger\<close> the per-category totals of February add up to 800 (Groceries 650, Coffee
  Shops 150) while the summary has expenses of 4200: the 3400 booked on the top-level
  category Food are in no row of the category spending.
\<close>

theorem category_rollup_misses_top_level:
  "category_rollup ledger 19770 = 800
   \<and> expenses (get_monthly_summary ledger 19770) = Some 4200"
  by code_simp

end
